theory Spec2Isabelle
  imports Main "HOL-Library.AList"
begin

section \<open>Exceptions and callback outcomes\<close>

text \<open>
  The exception classes the sources construct (\<open>Exc.jsDAV_Exception_*\<close> in the server,
  \<open>Exc.*\<close> in the ACL package), each with the message it is given.  \<open>TypeError\<close> and
  \<open>ReferenceError\<close> are the errors the JavaScript run time raises itself.
\<close>

datatype exc =
    jsDAV_Exception string
  | BadRequest string
  | Forbidden string
  | FileNotFound string
  | NotFound string
  | MethodNotAllowed string
  | Conflict string
  | PreconditionFailed string string
  | UnsupportedMediaType string
  | RequestedRangeNotSatisfiable string
  | NotImplemented string
  | TypeError
  | ReferenceError

text \<open>
  Modelled from the spec: the status code an exception object carries (its \<open>code\<close>
  field, declared in the exceptions module, which is not among the sources); the numbers
  are those of section 7 of the specification, 500 being the default.
\<close>

fun code :: "exc \<Rightarrow> nat" where
  "code (BadRequest m) = 400"
| "code (Forbidden m) = 403"
| "code (FileNotFound m) = 404"
| "code (NotFound m) = 404"
| "code (MethodNotAllowed m) = 405"
| "code (Conflict m) = 409"
| "code (PreconditionFailed m h) = 412"
| "code (UnsupportedMediaType m) = 415"
| "code (RequestedRangeNotSatisfiable m) = 416"
| "code (NotImplemented m) = 501"
| "code (jsDAV_Exception m) = 500"
| "code TypeError = 500"
| "code ReferenceError = 500"

text \<open>
  What became of a Node-style callback \<open>cb(err, value)\<close>: it was called with an error,
  it was called with a value, or the code path ends without ever calling it; \<open>Thrown\<close>
  is an exception raised before any of that.
\<close>

datatype 'a outcome = Failed exc | Done 'a | Pending | Thrown exc

section \<open>The principal collection (DAVACL/abstractPrincipalCollection.js)\<close>

text \<open>
  The object's fields, together with the two collaborators it calls: the principal
  backend (\<open>getPrincipalsByPrefix\<close>, \<open>getPrincipalByPath\<close>) and the subclass's
  \<open>getChildForPrincipal\<close>.  \<open>getPrincipalByPath\<close> gives the \<open>principalInfo\<close> its callback
  receives, \<open>None\<close> for a falsy one; the source never reads that callback's \<open>err\<close>.
\<close>

record ('i, 'n) principalCollection =
  principalPrefix :: string
  disableListing :: bool
  getPrincipalsByPrefix :: "string \<Rightarrow> exc + 'i list"
  getPrincipalByPath :: "string \<Rightarrow> 'i option"
  getChildForPrincipal :: "'i \<Rightarrow> exc + 'n"

text \<open>
  \<open>Async.list(principals).each(f).end(g)\<close> runs \<open>f\<close> on the first item and goes on to the
  next one only when \<open>f\<close> calls \<open>next\<close>; \<open>next(err)\<close> jumps to \<open>g(err)\<close>.  The \<open>each\<close> body of
  \<open>getChildren\<close> calls \<open>next\<close> only on an error, so after a first child that resolves
  nothing more happens.
\<close>

definition getChildren :: "('i, 'n) principalCollection \<Rightarrow> 'n list outcome" where
  "getChildren c =
     (if disableListing c
      then Failed (MethodNotAllowed ''Listing members of this collection is disabled'')
      else case getPrincipalsByPrefix c (principalPrefix c) of
             Inl err \<Rightarrow> Failed err
           | Inr principals \<Rightarrow>
               (case principals of
                  [] \<Rightarrow> Done []
                | principalInfo # rest \<Rightarrow>
                    (case getChildForPrincipal c principalInfo of
                       Inl err \<Rightarrow> Failed err
                     | Inr child \<Rightarrow> Pending)))"

definition getChild :: "('i, 'n) principalCollection \<Rightarrow> string \<Rightarrow> 'n outcome" where
  "getChild c name =
     (case getPrincipalByPath c (principalPrefix c @ ''/'' @ name) of
        None \<Rightarrow> Failed (NotFound (''Principal with name '' @ name @ '' not found''))
      | Some principalInfo \<Rightarrow>
          (case getChildForPrincipal c principalInfo of
             Inl err \<Rightarrow> Failed err
           | Inr child \<Rightarrow> Done child))"

text \<open>A collection with listing disabled whose backend knows the principal \<open>principals/alice\<close>.\<close>

definition example_principals :: "(nat, string) principalCollection" where
  "example_principals =
     \<lparr> principalPrefix = ''principals'', disableListing = True,
       getPrincipalsByPrefix = (\<lambda>p. Inr [1]),
       getPrincipalByPath = (\<lambda>p. if p = ''principals/alice'' then Some 1 else None),
       getChildForPrincipal = (\<lambda>i. Inr ''alice-node'') \<rparr>"

section \<open>Strings as JavaScript treats them\<close>

text \<open>
  Strings are lists of 8-bit characters.  \<open>s.indexOf(t) === 0\<close> is \<open>starts_with s t\<close>,
  \<open>s.indexOf(t) > -1\<close> is \<open>contains s t\<close>, \<open>s.substr(n)\<close> is \<open>drop n s\<close>, and
  \<open>s.replace(t, r)\<close> with a string pattern replaces the first occurrence only.
\<close>

fun starts_with :: "string \<Rightarrow> string \<Rightarrow> bool" where
  "starts_with s [] = True"
| "starts_with [] (c # t) = False"
| "starts_with (d # s) (c # t) = (d = c \<and> starts_with s t)"

fun contains :: "string \<Rightarrow> string \<Rightarrow> bool" where
  "contains [] t = (t = [])"
| "contains (c # s) t = (starts_with (c # s) t \<or> contains s t)"

fun replace_first :: "string \<Rightarrow> string \<Rightarrow> string \<Rightarrow> string" where
  "replace_first [] t r = (if t = [] then r else [])"
| "replace_first (c # s) t r =
     (if starts_with (c # s) t then r @ drop (length t) (c # s)
      else c # replace_first s t r)"

text \<open>
  Modelled from the spec: \<open>Util.trim(str, charlist)\<close>, of the utility module that is not
  among the sources ("trims leading/trailing slash"): it strips from both ends of \<open>str\<close>
  every character that occurs in \<open>charlist\<close>.
\<close>

definition trim :: "string \<Rightarrow> string \<Rightarrow> string" where
  "trim str charlist =
     rev (dropWhile (\<lambda>c. c \<in> set charlist) (rev (dropWhile (\<lambda>c. c \<in> set charlist) str)))"

text \<open>
  The built-in \<open>unescape\<close>: \<open>%XX\<close> with two hexadecimal digits is replaced by the
  character of that code, any other \<open>%\<close> stays.  (The \<open>%uXXXX\<close> form denotes a 16-bit code
  unit; the model decodes it when the code fits the 8-bit characters used here and
  leaves it as it is otherwise.)
\<close>

definition hexval :: "char \<Rightarrow> nat option" where
  "hexval c =
     (let n = of_char c :: nat in
      if 48 \<le> n \<and> n \<le> 57 then Some (n - 48)
      else if 65 \<le> n \<and> n \<le> 70 then Some (n - 55)
      else if 97 \<le> n \<and> n \<le> 102 then Some (n - 87)
      else None)"

definition hex2 :: "char \<Rightarrow> char \<Rightarrow> char option" where
  "hex2 a b =
     (case (hexval a, hexval b) of
        (Some h1, Some h0) \<Rightarrow> Some (char_of (16 * h1 + h0))
      | _ \<Rightarrow> None)"

definition hex4 :: "char \<Rightarrow> char \<Rightarrow> char \<Rightarrow> char \<Rightarrow> char option" where
  "hex4 a b x y =
     (case (hexval a, hexval b, hex2 x y) of
        (Some h3, Some h2, Some ch) \<Rightarrow> (if h3 = 0 \<and> h2 = 0 then Some ch else None)
      | _ \<Rightarrow> None)"

fun unescape :: "string \<Rightarrow> string" where
  "unescape (p # u # a # b # x # y # rest) =
     (case (if p = CHR ''%'' \<and> u = CHR ''u'' then hex4 a b x y else None) of
        Some ch \<Rightarrow> ch # unescape rest
      | None \<Rightarrow>
          (case (if p = CHR ''%'' then hex2 u a else None) of
             Some ch \<Rightarrow> ch # unescape (b # x # y # rest)
           | None \<Rightarrow> p # unescape (u # a # b # x # y # rest)))"
| "unescape (p # a # b # rest) =
     (case (if p = CHR ''%'' then hex2 a b else None) of
        Some ch \<Rightarrow> ch # unescape rest
      | None \<Rightarrow> p # unescape (a # b # rest))"
| "unescape (p # rest) = p # unescape rest"
| "unescape [] = []"

section \<open>The href property (\<open>jsDAV_Property_Href\<close>)\<close>

text \<open>
  The part of a parsed XML document \<open>unserialize\<close> reads: an element has a namespace
  URI, a local name and child nodes; text is a node of its own.
\<close>

datatype dom = Element (namespaceURI: string) (localName: string) (childNodes: "dom list")
  | TextNode string

fun getFirstChild :: "dom \<Rightarrow> dom option" where
  "getFirstChild (Element ns l []) = None"
| "getFirstChild (Element ns l (c # cs)) = Some c"
| "getFirstChild (TextNode t) = None"

fun textContent :: "dom \<Rightarrow> string" where
  "textContent (TextNode t) = t"
| "textContent (Element ns l cs) = concat (map textContent cs)"

text \<open>
  Modelled from the spec: \<open>Util.toClarkNotation\<close>, of the utility module that is not among
  the sources ("Clark-notation ({ns}local) conversion"): an element gives
  \<open>{namespace}local\<close>; a missing node and a text node give no name.
\<close>

fun toClarkNotation :: "dom option \<Rightarrow> string option" where
  "toClarkNotation None = None"
| "toClarkNotation (Some (TextNode t)) = None"
| "toClarkNotation (Some (Element ns l cs)) = Some (''{'' @ ns @ ''}'' @ l)"

record jsDAV_Property_Href =
  href :: string
  autoPrefix :: bool

text \<open>The constructor: \<open>autoPrefix\<close> is the argument when it is a boolean, \<open>true\<close> otherwise.\<close>

definition new_Href :: "string \<Rightarrow> bool option \<Rightarrow> jsDAV_Property_Href" where
  "new_Href h ap = \<lparr> href = h, autoPrefix = (case ap of Some b \<Rightarrow> b | None \<Rightarrow> True) \<rparr>"

text \<open>
  What \<open>serialize\<close> reads of the server: its base URI and its namespace-to-prefix table.
  A namespace that is not in the table reads as \<open>undefined\<close>, which string concatenation
  prints as that word.
\<close>

definition ns_prefix :: "(string \<times> string) list \<Rightarrow> string \<Rightarrow> string" where
  "ns_prefix xmlNamespaces ns =
     (case map_of xmlNamespaces ns of Some p \<Rightarrow> p | None \<Rightarrow> ''undefined'')"

definition serialize :: "string \<Rightarrow> (string \<times> string) list \<Rightarrow> jsDAV_Property_Href \<Rightarrow> string \<Rightarrow> string" where
  "serialize base xmlNamespaces p d =
     (let propPrefix = ns_prefix xmlNamespaces ''DAV:''
      in d @ ''<'' @ propPrefix @ '':href>'' @ (if autoPrefix p then base else [])
           @ href p @ ''</'' @ propPrefix @ '':href>'')"

text \<open>\<open>unserialize\<close> returns nothing (\<open>undefined\<close>) unless the first child is \<open>{DAV:}href\<close>.\<close>

definition unserialize :: "dom \<Rightarrow> jsDAV_Property_Href option" where
  "unserialize d =
     (if toClarkNotation (getFirstChild d) = Some ''{DAV:}href''
      then (case getFirstChild d of
              Some c \<Rightarrow> Some (new_Href (textContent c) (Some False))
            | None \<Rightarrow> None)
      else None)"

text \<open>
  The text \<open>serialize\<close> puts between the tags, and the element an XML parser hands back
  for a property element that holds such an \<open>href\<close> element as its first child.
\<close>

definition emitted_href :: "string \<Rightarrow> jsDAV_Property_Href \<Rightarrow> string" where
  "emitted_href base p = (if autoPrefix p then base else []) @ href p"

definition parsed_prop :: "string \<Rightarrow> string \<Rightarrow> string \<Rightarrow> dom list \<Rightarrow> dom" where
  "parsed_prop ns l t siblings = Element ns l (Element ''DAV:'' ''href'' [TextNode t] # siblings)"

section \<open>The server (DAV/server.js): URIs\<close>

text \<open>
  \<open>Url.parse(uri).pathname\<close> is Node's library, not this repository's code: the model
  takes it as the parameter \<open>pathname\<close>.
\<close>

definition calculateUri :: "(string \<Rightarrow> string) \<Rightarrow> string \<Rightarrow> string \<Rightarrow> exc + string" where
  "calculateUri pathname base uri0 =
     (let uri1 = (if take 1 uri0 \<noteq> ''/'' \<and> contains uri0 ''://'' then pathname uri0 else uri0);
          uri = replace_first uri1 ''//'' ''/''
      in if starts_with uri base then Inr (trim (unescape (drop (length base) uri)) ''/'')
         else if uri @ ''/'' = base then Inr []
         else Inl (Forbidden (''Requested uri ('' @ uri @ '') is out of base uri ('' @ base @ '')'')))"

section \<open>The server (DAV/server.js): requests, nodes and the tree\<close>

text \<open>
  A request carries its URL and its headers.  Node hands every header to the program as a
  string under its lower-case name; \<open>header\<close> is the test \<open>if (x = headers[name])\<close>, which
  a missing header and an empty one both fail.
\<close>

record request =
  url :: string
  headers :: "(string \<times> string) list"

definition header :: "request \<Rightarrow> string \<Rightarrow> string option" where
  "header req name =
     (case map_of (headers req) name of
        None \<Rightarrow> None
      | Some v \<Rightarrow> if v = [] then None else Some v)"

text \<open>
  The capabilities \<open>hasFeature\<close> asks for (\<open>jsDAV.__IFILE__\<close> and so on), and a node of
  the tree with what the server reads of it: its \<open>path\<close>, its entity tag, modification
  time, content (or the error \<open>get\<close> reports), size, content type and quota, the
  properties an \<open>IProperties\<close> node declares for a list of names, what its
  \<open>updateProperties\<close> and \<open>delete\<close> answer, and its children (what \<open>getChildren\<close> hands
  to its callback: the nodes, or an error).
\<close>

datatype feature = IFILE | ICOLLECTION | IPROPERTIES | IQUOTA | IEXTCOLLECTION

text \<open>
  The values a property can have: a string, a number, \<open>null\<close>, or one of the property
  objects the server constructs.  A resource type object holds \<open>null\<close>, a number, a string
  or a list of strings.
\<close>

datatype rtvalue = RNull | RNum int | RStr string | RList "string list"

datatype pvalue =
    PStr string
  | PNum int
  | PNull
  | GetLastModified "int option"
  | ResourceType rtvalue
  | SupportedReportSet

text \<open>
  A JavaScript array: its \<open>length\<close> and its own properties by name.  Assigning to a name
  that is a canonical array index raises \<open>length\<close> above that index; assigning to any
  other name leaves \<open>length\<close> alone.
\<close>

record jsarray =
  alength :: nat
  aprops :: "(string \<times> pvalue) list"

text \<open>What \<open>node.updateProperties\<close> may return.\<close>

datatype update_result =
    UTrue
  | UFalse
  | UNull
  | UObject "(string \<times> jsarray) list"
  | UOther

datatype node = Node
  (path: string)
  (features: "feature list")
  (getETag: "string option")
  (getLastModified: "int option")
  (get: "exc + string")
  (getSize: int)
  (getContentType: "string option")
  (getQuotaInfo: "int \<times> int")
  (getProperties: "string list \<Rightarrow> (string \<times> pvalue) list")
  (updateProperties_result: "(string \<times> pvalue) list \<Rightarrow> update_result")
  (delete_result: "exc option")
  (children: "exc + node list")

definition hasFeature :: "node \<Rightarrow> feature \<Rightarrow> bool" where
  "hasFeature n f = (f \<in> set (features n))"

text \<open>
  The server object with its collaborators: the tree (\<open>getNodeForPath\<close>, and what \<open>move\<close>
  answers), the event subscribers (\<open>emit event uri\<close> is true when one of them
  vetoes), and the library functions the code calls: \<open>Url.parse(u).pathname\<close>, the \<open>Date\<close>
  constructor on a string (\<open>None\<close> is an invalid date), \<open>Util.dateFormat\<close> with the
  RFC 1123 format, and the bytes a freshly allocated \<open>Buffer\<close> of a given length holds.
\<close>

record server =
  baseUri :: string
  xmlNamespaces :: "(string \<times> string) list"
  protectedProperties :: "string list"
  getNodeForPath :: "string \<Rightarrow> exc + node"
  move_result :: "string \<Rightarrow> string \<Rightarrow> exc option"
  emit :: "string \<Rightarrow> string \<Rightarrow> bool"
  pathname :: "string \<Rightarrow> string"
  parseDate :: "string \<Rightarrow> int option"
  dateFormat :: "int option \<Rightarrow> string"
  new_Buffer :: "nat \<Rightarrow> string"

definition getRequestUri :: "server \<Rightarrow> request \<Rightarrow> exc + string" where
  "getRequestUri srv req = calculateUri (pathname srv) (baseUri srv) (url req)"

subsection \<open>The Depth header\<close>

text \<open>
  A JavaScript value that is a string or a number (an integer or \<open>NaN\<close>), with \<open>typeof\<close>
  and \<open>parseInt\<close> on it.  \<open>parseInt\<close> of a string reads its leading decimal digits; a
  string without any gives \<open>NaN\<close>, here \<open>None\<close>.
\<close>

datatype jsval = Str string | Num int | NaN

fun typeof :: "jsval \<Rightarrow> string" where
  "typeof (Str s) = ''string''"
| "typeof (Num n) = ''number''"
| "typeof NaN = ''number''"

definition is_digit :: "char \<Rightarrow> bool" where
  "is_digit c = (48 \<le> (of_char c :: nat) \<and> (of_char c :: nat) \<le> 57)"

definition digits_value :: "string \<Rightarrow> int" where
  "digits_value s = foldl (\<lambda>acc c. 10 * acc + (int (of_char c) - 48)) 0 s"

fun parseInt :: "jsval \<Rightarrow> int option" where
  "parseInt (Num n) = Some n"
| "parseInt NaN = None"
| "parseInt (Str s) =
     (let ds = takeWhile is_digit s in if ds = [] then None else Some (digits_value ds))"

definition DEPTH_INFINITY :: int where
  "DEPTH_INFINITY = - 1"

text \<open>
  \<open>getHTTPDepth(def)\<close>.  The header, when there is one, is a string, and \<open>depth\<close> is
  tested with \<open>typeof depth != "number"\<close> before \<open>parseInt\<close> is reached.
\<close>

definition getHTTPDepth :: "request \<Rightarrow> int \<Rightarrow> int option" where
  "getHTTPDepth req def0 =
     (let def = (if def0 = 0 then DEPTH_INFINITY else def0) in
      case header req ''depth'' of
        None \<Rightarrow> Some def
      | Some d \<Rightarrow>
          (let depth = Str d in
           if d = ''infinity'' then Some DEPTH_INFINITY
           else if typeof depth \<noteq> ''number'' then Some def
           else parseInt depth))"

text \<open>The depth \<open>httpPropfind\<close> passes on: \<open>getHTTPDepth(1)\<close>, and 1 unless that is 0.\<close>

definition propfind_depth :: "request \<Rightarrow> int" where
  "propfind_depth req =
     (let depth = getHTTPDepth req 1 in if depth \<noteq> Some 0 then 1 else 0)"

subsection \<open>Preconditions\<close>

text \<open>Printing an integer, as string concatenation does.\<close>

fun nat_digits :: "nat \<Rightarrow> string" where
  "nat_digits n = (if n < 10 then [char_of (48 + n)] else nat_digits (n div 10) @ [char_of (48 + n mod 10)])"

definition String :: "int \<Rightarrow> string" where
  "String i = (if i < 0 then ''-'' @ nat_digits (nat (- i)) else nat_digits (nat i))"

text \<open>\<open>a > b\<close> on two dates: false as soon as one of them is invalid.\<close>

definition date_gt :: "int option \<Rightarrow> int option \<Rightarrow> bool" where
  "date_gt a b = (case (a, b) of (Some x, Some y) \<Rightarrow> x > y | _ \<Rightarrow> False)"

text \<open>
  \<open>checkPreconditions(handleAsGET, cbprecond)\<close> gives the status it wrote with
  \<open>writeHead\<close>, if any, and what became of \<open>cbprecond\<close>: \<open>Done redirected\<close> for
  \<open>cbprecond(null, redirected)\<close>.  The nested functions of the source are the functions
  below, innermost first; \<open>node\<close> is the variable they share.

  In \<open>finale\<close> the source writes
  \<open>return cbprecond(Exc.jsDAV_Exception_PreconditionFailed(...))\<close>, without \<open>new\<close>: the
  constructor is called as a plain function, builds no object and returns \<open>undefined\<close>, so
  the callback is called with no error and no \<open>redirected\<close>, which is \<open>Done False\<close>.
\<close>

definition finale :: "server \<Rightarrow> int option \<Rightarrow> node \<Rightarrow> nat option \<times> bool outcome" where
  "finale srv date n =
     (case getLastModified n of
        None \<Rightarrow> (None, Done False)
      | Some lastMod \<Rightarrow>
          if lastMod = 0 then (None, Done False)
          else if date_gt (parseDate srv (''@'' @ String lastMod)) date
          then (None, Done False)
          else (None, Done False))"

definition afterIfModifiedSince ::
  "server \<Rightarrow> request \<Rightarrow> string \<Rightarrow> node option \<Rightarrow> nat option \<times> bool outcome" where
  "afterIfModifiedSince srv req uri node =
     (case header req ''if-unmodified-since'' of
        None \<Rightarrow> (None, Done False)
      | Some ifUnmodifiedSince \<Rightarrow>
          (let date = parseDate srv ifUnmodifiedSince in
           case node of
             None \<Rightarrow>
               (case getNodeForPath srv uri of
                  Inl err \<Rightarrow> (None, Failed err)
                | Inr n \<Rightarrow> finale srv date n)
           | Some n \<Rightarrow> finale srv date n))"

text \<open>
  In \<open>afterIfNoneMatch\<close> the branch for If-Modified-Since is guarded by \<open>!ifNoneMatch\<close>.
  When it is entered with \<open>node\<close> set, the statement \<open>if (!node) node = ...\<close> does nothing
  and no callback follows; with \<open>node\<close> unset, the callback of \<open>getNodeForPath\<close> reports the
  error, or reads \<open>node.getLastModified()\<close> of a \<open>node\<close> that is still not an object.
\<close>

definition afterIfNoneMatch ::
  "server \<Rightarrow> request \<Rightarrow> string \<Rightarrow> node option \<Rightarrow> string \<Rightarrow> nat option \<times> bool outcome" where
  "afterIfNoneMatch srv req uri node ifNoneMatch =
     (if ifNoneMatch = [] \<and> header req ''if-modified-since'' \<noteq> None
      then (case node of
              None \<Rightarrow>
                (case getNodeForPath srv uri of
                   Inl err \<Rightarrow> (None, Failed err)
                 | Inr n \<Rightarrow> (None, Thrown TypeError))
            | Some n \<Rightarrow> (None, Pending))
      else afterIfModifiedSince srv req uri node)"

definition afterIfMatch ::
  "server \<Rightarrow> request \<Rightarrow> bool \<Rightarrow> string \<Rightarrow> node option \<Rightarrow> nat option \<times> bool outcome" where
  "afterIfMatch srv req handleAsGET uri node =
     (case header req ''if-none-match'' of
        None \<Rightarrow> (None, Done False)
      | Some ifNoneMatch \<Rightarrow>
          (case node of
             None \<Rightarrow>
               (case getNodeForPath srv uri of
                  Inl err \<Rightarrow> afterIfNoneMatch srv req uri None ifNoneMatch
                | Inr n \<Rightarrow>
                    (let ifNoneMatch' = trim ifNoneMatch [CHR 0x22] in
                     if ifNoneMatch' = ''*''
                        \<or> (case getETag n of
                              None \<Rightarrow> False
                            | Some etag \<Rightarrow> etag \<noteq> [] \<and> etag = ifNoneMatch')
                     then (if handleAsGET then (Some 304, Done True)
                           else (None, Failed (PreconditionFailed
                                   (''An If-None-Match header was specified, but the ETag ''
                                    @ ''matched (or * was specified).'')
                                   ''If-None-Match'')))
                     else (None, Pending)))
           | Some n \<Rightarrow> afterIfNoneMatch srv req uri (Some n) ifNoneMatch))"

definition checkPreconditions ::
  "server \<Rightarrow> request \<Rightarrow> bool \<Rightarrow> nat option \<times> bool outcome" where
  "checkPreconditions srv req handleAsGET =
     (case getRequestUri srv req of
        Inl ex \<Rightarrow> (None, Failed ex)
      | Inr uri \<Rightarrow>
          (case header req ''if-match'' of
             None \<Rightarrow> afterIfMatch srv req handleAsGET uri None
           | Some ifMatch \<Rightarrow>
               (case getNodeForPath srv uri of
                  Inl err \<Rightarrow>
                    (None, Failed (PreconditionFailed
                       ''An If-Match header was specified and the resource did not exist''
                       ''If-Match''))
                | Inr n \<Rightarrow>
                    if ifMatch \<noteq> ''*'' \<and> getETag n \<noteq> Some (trim ifMatch [CHR 0x22])
                    then (None, Failed (PreconditionFailed
                            ''An If-Match header was specified, but the ETag did not match''
                            ''If-Match''))
                    else afterIfMatch srv req handleAsGET uri (Some n))))"

subsection \<open>Gathering properties\<close>

text \<open>
  JavaScript objects used as dictionaries are association lists: \<open>o[k] = v\<close> is
  \<open>AList.update k v\<close>, \<open>delete o[k]\<close> is \<open>AList.delete k\<close>, \<open>o[k]\<close> is \<open>map_of o k\<close> with
  \<open>None\<close> for \<open>undefined\<close>.  (The order in which JavaScript enumerates keys that look like
  integers is not modelled; nothing below depends on the order of keys.)

  \<open>truthy\<close> is the test \<open>if (v)\<close> on a property value.
\<close>

fun truthy :: "pvalue \<Rightarrow> bool" where
  "truthy (PStr s) = (s \<noteq> [])"
| "truthy (PNum n) = (n \<noteq> 0)"
| "truthy PNull = False"
| "truthy (GetLastModified t) = True"
| "truthy (ResourceType r) = True"
| "truthy SupportedReportSet = True"

definition NODE_FILE :: int where
  "NODE_FILE = 1"

definition NODE_DIRECTORY :: int where
  "NODE_DIRECTORY = 2"

text \<open>
  The constructor of DAV/property/resourceType.js: the value it stores for its argument.
  \<open>getValue\<close> returns the stored value; only the resource type object has that method.
\<close>

definition jsDAV_Property_ResourceType :: "rtvalue \<Rightarrow> pvalue" where
  "jsDAV_Property_ResourceType resourceType =
     ResourceType
       (if resourceType = RNum NODE_FILE then RNull
        else if resourceType = RNum NODE_DIRECTORY then RStr ''{DAV:}collection''
        else resourceType)"

fun getValue :: "pvalue \<Rightarrow> exc + rtvalue" where
  "getValue (ResourceType r) = Inr r"
| "getValue v = Inl TypeError"

text \<open>
  One entry of the list \<open>getPropertiesForPath\<close> returns: the buckets \<open>"200"\<close> and \<open>"404"\<close>
  and the \<open>href\<close>, which is not there until \<open>afterGetProperty\<close> sets it.
\<close>

record entry =
  props200 :: "(string \<times> pvalue) list"
  props404 :: "(string \<times> pvalue) list"
  entry_href :: "string option"

text \<open>
  The condition under which \<open>afterGetProperty\<close> appends a slash, after \<open>rpath != ""\<close>:
  \<open>newProps["200"]["{DAV:}resourcetype"]\<close> is truthy and its \<open>getValue()\<close> is not \<open>null\<close>.
\<close>

definition resourcetype_set :: "(string \<times> pvalue) list \<Rightarrow> exc + bool" where
  "resourcetype_set p200 =
     (case map_of p200 ''{DAV:}resourcetype'' of
        None \<Rightarrow> Inr False
      | Some v \<Rightarrow>
          if \<not> truthy v then Inr False
          else (case getValue v of Inl e \<Rightarrow> Inl e | Inr r \<Rightarrow> Inr (r \<noteq> RNull)))"

text \<open>
  \<open>afterGetProperty(rprop, rpath, remRT, newProps, cbnext)\<close> gives the entry as it leaves
  it; the entry is then stored in \<open>returnPropertyList\<close> under the trimmed path.  No
  subscriber of \<open>afterGetProperties\<close> changes the entry.
\<close>

definition afterGetProperty ::
  "bool \<Rightarrow> string \<Rightarrow> string \<Rightarrow> bool \<Rightarrow> entry \<Rightarrow> exc + entry" where
  "afterGetProperty allProperties rprop rpath0 remRT newProps0 =
     (let newProps1 =
            (if \<not> allProperties
                \<and> (case map_of (props200 newProps0) rprop of None \<Rightarrow> False | Some v \<Rightarrow> truthy v)
             then newProps0 \<lparr> props404 := AList.delete rprop (props404 newProps0) \<rparr>
             else newProps0);
          rpath = trim rpath0 ''/''
      in case (if rpath \<noteq> [] then resourcetype_set (props200 newProps1) else Inr False) of
           Inl e \<Rightarrow> Inl e
         | Inr slash \<Rightarrow>
             Inr (newProps1
                   \<lparr> entry_href := Some (rpath @ (if slash then ''/'' else [])),
                     props200 := (if remRT
                                  then AList.delete ''{DAV:}resourcetype'' (props200 newProps1)
                                  else props200 newProps1) \<rparr>))"

text \<open>
  The body of the loop over the property names, for one name: the state is the entry
  under construction and whether it has been stored in \<open>returnPropertyList\<close> yet.
\<close>

definition resolved ::
  "bool \<Rightarrow> string \<Rightarrow> string \<Rightarrow> bool \<Rightarrow> entry \<Rightarrow> pvalue option \<Rightarrow> exc + entry \<times> bool" where
  "resolved allProperties prop myPath removeRT newProperties v =
     (case afterGetProperty allProperties prop myPath removeRT
             (case v of
                None \<Rightarrow> newProperties
              | Some x \<Rightarrow> newProperties \<lparr> props200 := AList.update prop x (props200 newProperties) \<rparr>) of
        Inl e \<Rightarrow> Inl e
      | Inr newProps \<Rightarrow> Inr (newProps, True))"

definition getProperty ::
  "bool \<Rightarrow> string \<Rightarrow> bool \<Rightarrow> node \<Rightarrow> string \<Rightarrow> entry \<times> bool \<Rightarrow> exc + entry \<times> bool" where
  "getProperty allProperties myPath removeRT node prop st =
     (let newProperties = fst st in
      if map_of (props200 newProperties) prop \<noteq> None then Inr st
      else if prop = ''{DAV:}getlastmodified''
      then resolved allProperties prop myPath removeRT newProperties
             (Some (GetLastModified (getLastModified node)))
      else if prop = ''{DAV:}getcontentlength''
      then (if hasFeature node IFILE
            then resolved allProperties prop myPath removeRT newProperties
                   (Some (PNum (getSize node)))
            else Inr st)
      else if prop = ''{DAV:}resourcetype''
      then resolved allProperties prop myPath removeRT newProperties
             (Some (jsDAV_Property_ResourceType
                      (RNum (if hasFeature node ICOLLECTION then NODE_DIRECTORY else NODE_FILE))))
      else if prop = ''{DAV:}quota-used-bytes''
      then (if hasFeature node IQUOTA
            then resolved allProperties prop myPath removeRT newProperties
                   (Some (PNum (fst (getQuotaInfo node))))
            else Inr st)
      else if prop = ''{DAV:}quota-available-bytes''
      then (if hasFeature node IQUOTA
            then resolved allProperties prop myPath removeRT newProperties
                   (Some (PNum (snd (getQuotaInfo node))))
            else Inr st)
      else if prop = ''{DAV:}getetag''
      then (if hasFeature node IFILE
            then resolved allProperties prop myPath removeRT newProperties
                   (case getETag node of
                      None \<Rightarrow> None
                    | Some etag \<Rightarrow> if etag = [] then None else Some (PStr etag))
            else Inr st)
      else if prop = ''{DAV:}getcontenttype''
      then (if hasFeature node IFILE
            then resolved allProperties prop myPath removeRT newProperties
                   (case getContentType node of
                      None \<Rightarrow> None
                    | Some ct \<Rightarrow> if ct = [] then None else Some (PStr ct))
            else Inr st)
      else if prop = ''{DAV:}supported-report-set''
      then resolved allProperties prop myPath removeRT newProperties (Some SupportedReportSet)
      else Inr st)"

fun getProperty_each ::
  "bool \<Rightarrow> string \<Rightarrow> bool \<Rightarrow> node \<Rightarrow> string list \<Rightarrow> entry \<times> bool \<Rightarrow> exc + entry \<times> bool" where
  "getProperty_each allProperties myPath removeRT node [] st = Inr st"
| "getProperty_each allProperties myPath removeRT node (prop # props) st =
     (case getProperty allProperties myPath removeRT node prop st of
        Inl e \<Rightarrow> Inl e
      | Inr st' \<Rightarrow> getProperty_each allProperties myPath removeRT node props st')"

text \<open>
  Modelled from the spec: \<open>Util.makeUnique\<close>, of the utility module that is not among the
  sources ("making sure there's no double entries"): each name once, at its first place.
\<close>

definition makeUnique :: "string list \<Rightarrow> string list" where
  "makeUnique xs = rev (remdups (rev xs))"

definition default_propertyNames :: "string list" where
  "default_propertyNames =
     [''{DAV:}getlastmodified'', ''{DAV:}getcontentlength'', ''{DAV:}resourcetype'',
      ''{DAV:}quota-used-bytes'', ''{DAV:}quota-available-bytes'', ''{DAV:}getetag'',
      ''{DAV:}getcontenttype'']"

text \<open>
  The body of the loop over the nodes, for the node stored under \<open>myPath\<close>: it gives the
  property names as it leaves them for the next node, and the entry with the key it was
  stored under, if it was stored.
\<close>

definition node_entry ::
  "bool \<Rightarrow> string list \<Rightarrow> string \<Rightarrow> node \<Rightarrow> exc + string list \<times> (string \<times> entry) option" where
  "node_entry allProperties propertyNames0 myPath node =
     (let p200 = (if hasFeature node IPROPERTIES then getProperties node propertyNames0 else []);
          propertyNames1 =
            (if allProperties then makeUnique (default_propertyNames @ map fst p200)
             else propertyNames0);
          removeRT = (''{DAV:}resourcetype'' \<notin> set propertyNames1);
          propertyNames = (if removeRT then propertyNames1 @ [''{DAV:}resourcetype'']
                           else propertyNames1)
      in case getProperty_each allProperties myPath removeRT node propertyNames
                (\<lparr> props200 = p200, props404 = [], entry_href = None \<rparr>, False) of
           Inl e \<Rightarrow> Inl e
         | Inr (newProperties, stored) \<Rightarrow>
             Inr (propertyNames,
                  if stored then Some (trim myPath ''/'', newProperties) else None))"

fun node_each ::
  "bool \<Rightarrow> string list \<Rightarrow> (string \<times> node) list \<Rightarrow> (string \<times> entry) list
     \<Rightarrow> exc + (string \<times> entry) list" where
  "node_each allProperties propertyNames [] returnPropertyList = Inr returnPropertyList"
| "node_each allProperties propertyNames ((myPath, node) # nodes) returnPropertyList =
     (case node_entry allProperties propertyNames myPath node of
        Inl e \<Rightarrow> Inl e
      | Inr (propertyNames', stored) \<Rightarrow>
          node_each allProperties propertyNames' nodes
            (case stored of
               None \<Rightarrow> returnPropertyList
             | Some (rpath, newProps) \<Rightarrow> AList.update rpath newProps returnPropertyList))"

text \<open>
  The nodes to report on: the target, under the key \<open>path\<close> (the object literal
  \<open>{ path : parentNode }\<close> names its key so), and, at depth 1 on a collection, each child
  under its own \<open>path\<close>.
\<close>

definition nodes_of :: "node \<Rightarrow> node list \<Rightarrow> (string \<times> node) list" where
  "nodes_of parentNode cNodes =
     foldl (\<lambda>nodes c. AList.update (path c) c nodes) [(''path'', parentNode)] cNodes"

definition getPropertiesForPath ::
  "server \<Rightarrow> string \<Rightarrow> string list \<Rightarrow> int \<Rightarrow> (string \<times> entry) list outcome" where
  "getPropertiesForPath srv p propertyNames depth0 =
     (let depth = (if depth0 \<noteq> 0 then 1 else (0::int)) in
      case getNodeForPath srv p of
        Inl err \<Rightarrow> Failed err
      | Inr parentNode \<Rightarrow>
          (case (if depth = 1 \<and> hasFeature parentNode ICOLLECTION
                 then (case children parentNode of
                         Inl err \<Rightarrow> Inl err
                       | Inr cNodes \<Rightarrow> Inr (nodes_of parentNode cNodes))
                 else Inr (nodes_of parentNode [])) of
             Inl err \<Rightarrow> Failed err
           | Inr nodes \<Rightarrow>
               (case node_each (propertyNames = []) propertyNames nodes [] of
                  Inl e \<Rightarrow> Thrown e
                | Inr returnPropertyList \<Rightarrow> Done returnPropertyList)))"

text \<open>\<open>getProperties(path, propertyNames)\<close> of the server: the \<open>"200"\<close> bucket of the entry \<open>path\<close>.\<close>

definition server_getProperties ::
  "server \<Rightarrow> string \<Rightarrow> string list \<Rightarrow> (string \<times> pvalue) list outcome" where
  "server_getProperties srv p propertyNames =
     (case getPropertiesForPath srv p propertyNames 0 of
        Failed err \<Rightarrow> Failed err
      | Thrown e \<Rightarrow> Thrown e
      | Pending \<Rightarrow> Pending
      | Done result \<Rightarrow>
          (case map_of result ''path'' of
             None \<Rightarrow> Thrown TypeError
           | Some e \<Rightarrow> Done (props200 e)))"

subsection \<open>Updating properties\<close>

text \<open>
  A property name is an array index when it is the decimal numeral of a number below
  \<open>2^32 - 1\<close>, without a sign and without leading zeros.  \<open>array_set\<close> is the assignment
  \<open>a[name] = null\<close> on an array.
\<close>

definition is_array_index :: "string \<Rightarrow> bool" where
  "is_array_index name =
     (name \<noteq> [] \<and> list_all is_digit name \<and> (name = ''0'' \<or> hd name \<noteq> CHR ''0'')
      \<and> digits_value name < 4294967295)"

definition array_set :: "string \<Rightarrow> jsarray \<Rightarrow> jsarray" where
  "array_set name a =
     \<lparr> alength = (if is_array_index name then max (alength a) (nat (digits_value name) + 1)
                  else alength a),
       aprops = AList.update name PNull (aprops a) \<rparr>"

definition empty_array :: jsarray where
  "empty_array = \<lparr> alength = 0, aprops = [] \<rparr>"

text \<open>
  What \<open>updateProperties\<close> returns: the status buckets that are left and the \<open>href\<close>; and
  with it, for the record, the argument \<open>node.updateProperties\<close> was called with, if it
  was called.
\<close>

record update_status =
  buckets :: "(string \<times> jsarray) list"
  status_href :: string
  node_called_with :: "(string \<times> pvalue) list option"

text \<open>\<open>for (propertyName in names) result[status][propertyName] = null\<close>.\<close>

definition set_all :: "string \<Rightarrow> string list \<Rightarrow> (string \<times> jsarray) list \<Rightarrow> (string \<times> jsarray) list" where
  "set_all st names result =
     foldl (\<lambda>r propertyName.
              case map_of r st of
                None \<Rightarrow> r
              | Some a \<Rightarrow> AList.update st (array_set propertyName a) r)
       result names"

text \<open>
  "Removing empty array values": every bucket whose \<open>length\<close> is 0 is deleted.
\<close>

definition remove_empty :: "(string \<times> jsarray) list \<Rightarrow> (string \<times> jsarray) list" where
  "remove_empty result = filter (\<lambda>(st, props). alength props \<noteq> 0) result"

text \<open>
  \<open>updateProperties(uri, properties)\<close>.  The source calls \<open>this.tree.getNodeForPath(uri)\<close>
  without a callback and uses what it returns as the node; the model takes the tree's
  answer for the path as that value.  \<open>remainingProperties\<close> starts as the very object
  \<open>properties\<close>, so deleting a protected name from the one deletes it from the other; the
  loop still visits every name.  In the branch for \<open>updateResult === false\<close> the source
  calls an undefined \<open>foreach\<close>, which raises a ReferenceError; a \<open>null\<close> result passes
  the test \<open>typeof updateResult == "object"\<close> and fails at \<open>result["href"] = uri\<close>.  An
  exception leaves the function as \<open>Inl\<close>.
\<close>

definition updateProperties ::
  "server \<Rightarrow> string \<Rightarrow> (string \<times> pvalue) list \<Rightarrow> exc + update_status" where
  "updateProperties srv uri properties0 =
     (case getNodeForPath srv uri of
        Inl err \<Rightarrow> Inl err
      | Inr node \<Rightarrow>
          (let result0 = [(''200'', empty_array), (''403'', empty_array), (''424'', empty_array)];
               not_props = \<not> hasFeature node IPROPERTIES;
               result1 = (if not_props then set_all ''403'' (map fst properties0) result0
                          else result0);
               protected = (if not_props then []
                            else filter (\<lambda>propertyName. propertyName \<in> set (protectedProperties srv))
                                   (map fst properties0));
               result2 = set_all ''403'' protected result1;
               properties = filter (\<lambda>(propertyName, v). propertyName \<notin> set protected) properties0;
               hasError = (not_props \<or> protected \<noteq> []);
               remainingProperties = (if not_props then [] else properties)
           in if hasError
              then Inr \<lparr> buckets = remove_empty
                                      (set_all ''424'' (map fst remainingProperties) result2),
                         status_href = uri, node_called_with = None \<rparr>
              else
                (case updateProperties_result node properties of
                   UTrue \<Rightarrow>
                     Inr \<lparr> buckets = remove_empty (set_all ''200'' (map fst properties) result2),
                           status_href = uri, node_called_with = Some properties \<rparr>
                 | UFalse \<Rightarrow> Inl ReferenceError
                 | UNull \<Rightarrow> Inl TypeError
                 | UObject updateResult \<Rightarrow>
                     Inr \<lparr> buckets = remove_empty updateResult,
                           status_href = uri, node_called_with = Some properties \<rparr>
                 | UOther \<Rightarrow> Inl (jsDAV_Exception ''Invalid result from updateProperties''))))"

subsection \<open>Responses and the error handler\<close>

text \<open>
  What a handler leaves behind: the operations it invoked on the tree, in order, and the
  response it wrote, if it wrote one.  A response is the status and headers given to
  \<open>writeHead\<close> and the body given to \<open>end\<close>.
\<close>

datatype effect = Delete string | Move string string

datatype body = NoBody | Bytes string | ErrorXml exc | MultiStatus "(string \<times> entry) list"

record response =
  status :: nat
  rheaders :: "(string \<times> jsval) list"
  rbody :: body

record handled =
  effects :: "effect list"
  response :: "response option"

text \<open>
  \<open>handleError\<close> answers with the code of the exception (500 for an error that is not a
  jsDAV exception), the XML content type, and an XML body built from the exception.
  Headers an exception class may add of its own are not modelled.
\<close>

definition handleError :: "exc \<Rightarrow> response" where
  "handleError e =
     \<lparr> status = code e,
       rheaders = [(''Content-Type'', Str ''application/xml; charset=utf-8'')],
       rbody = ErrorXml e \<rparr>"

subsection \<open>COPY and MOVE\<close>

text \<open>
  Modelled from the spec: \<open>Util.splitPath\<close>, of the utility module that is not among the
  sources ("path split"): trailing slashes dropped, the path is cut at its last slash
  into the parent path and the name.
\<close>

definition splitPath :: "string \<Rightarrow> string \<times> string" where
  "splitPath p =
     (let q = rev (dropWhile (\<lambda>c. c = CHR ''/'') (rev p));
          name = rev (takeWhile (\<lambda>c. c \<noteq> CHR ''/'') (rev q));
          parent = take (length q - length name - 1) q
      in (parent, name))"

text \<open>\<open>toUpperCase\<close>, on the letters a to z.\<close>

definition toUpperCase :: "string \<Rightarrow> string" where
  "toUpperCase s =
     map (\<lambda>c. if 97 \<le> (of_char c :: nat) \<and> (of_char c :: nat) \<le> 122
                then char_of ((of_char c :: nat) - 32) else c) s"

fun is_FileNotFound :: "exc \<Rightarrow> bool" where
  "is_FileNotFound (FileNotFound m) = True"
| "is_FileNotFound e = False"

record moveInfo =
  source :: string
  destination :: string
  destinationExists :: bool
  destinationNode :: "node option"

text \<open>
  \<open>getCopyAndMoveInfo\<close>; \<open>resolveDestination\<close> is its part from \<open>Util.splitPath\<close> on, once
  \<open>overwrite\<close> is a boolean.
\<close>

definition resolveDestination ::
  "server \<Rightarrow> string \<Rightarrow> string \<Rightarrow> bool \<Rightarrow> moveInfo outcome" where
  "resolveDestination srv src dest overwrite =
     (let destinationDir = fst (splitPath dest) in
      case getNodeForPath srv destinationDir of
        Inl err \<Rightarrow>
          Failed (if is_FileNotFound err then Conflict ''The destination node is not found''
                  else err)
      | Inr destinationParent \<Rightarrow>
          if \<not> hasFeature destinationParent ICOLLECTION
          then Failed (UnsupportedMediaType ''The destination node is not a collection'')
          else
            (case getNodeForPath srv dest of
               Inl err \<Rightarrow>
                 if is_FileNotFound err
                 then Done \<lparr> source = src, destination = dest,
                             destinationExists = False, destinationNode = None \<rparr>
                 else Failed err
             | Inr n \<Rightarrow>
                 if \<not> overwrite
                 then Failed (PreconditionFailed
                        ''The destination node already exists, and the overwrite header is set to false''
                        ''Overwrite'')
                 else Done \<lparr> source = src, destination = dest,
                             destinationExists = True, destinationNode = Some n \<rparr>))"

definition getCopyAndMoveInfo :: "server \<Rightarrow> request \<Rightarrow> moveInfo outcome" where
  "getCopyAndMoveInfo srv req =
     (case getRequestUri srv req of
        Inl ex \<Rightarrow> Failed ex
      | Inr src \<Rightarrow>
     (case header req ''destination'' of
        None \<Rightarrow> Failed (BadRequest ''The destination header was not supplied'')
      | Some dest_header \<Rightarrow>
     (case calculateUri (pathname srv) (baseUri srv) dest_header of
        Inl ex \<Rightarrow> Failed ex
      | Inr dest \<Rightarrow>
     (let overwrite = (case header req ''overwrite'' of None \<Rightarrow> ''T'' | Some v \<Rightarrow> v) in
      if toUpperCase overwrite = ''T'' then resolveDestination srv src dest True
      else if toUpperCase overwrite = ''F'' then resolveDestination srv src dest False
      else Failed (BadRequest ''The HTTP Overwrite header should be either T or F'')))))"

text \<open>\<open>afterDelete\<close> of \<open>httpMove\<close>, with the operations done so far.\<close>

definition move_afterDelete :: "server \<Rightarrow> moveInfo \<Rightarrow> effect list \<Rightarrow> handled" where
  "move_afterDelete srv info done =
     (if emit srv ''beforeUnbind'' (source info) \<or> emit srv ''beforeBind'' (destination info)
      then \<lparr> effects = done, response = None \<rparr>
      else
        (case move_result srv (source info) (destination info) of
           Some err \<Rightarrow>
             \<lparr> effects = done @ [Move (source info) (destination info)],
               response = Some (handleError err) \<rparr>
         | None \<Rightarrow>
             \<lparr> effects = done @ [Move (source info) (destination info)],
               response = Some \<lparr> status = (if destinationExists info then 204 else 201),
                                 rheaders = [(''Content-Length'', Str ''0'')],
                                 rbody = NoBody \<rparr> \<rparr>))"

definition httpMove :: "server \<Rightarrow> request \<Rightarrow> handled" where
  "httpMove srv req =
     (case getCopyAndMoveInfo srv req of
        Failed err \<Rightarrow> \<lparr> effects = [], response = Some (handleError err) \<rparr>
      | Thrown err \<Rightarrow> \<lparr> effects = [], response = Some (handleError err) \<rparr>
      | Pending \<Rightarrow> \<lparr> effects = [], response = None \<rparr>
      | Done info \<Rightarrow>
          (case destinationNode info of
             Some n \<Rightarrow>
               if emit srv ''beforeUnbind'' (destination info)
               then \<lparr> effects = [], response = None \<rparr>
               else
                 (case delete_result n of
                    Some err \<Rightarrow>
                      \<lparr> effects = [Delete (destination info)],
                        response = Some (handleError err) \<rparr>
                  | None \<Rightarrow> move_afterDelete srv info [Delete (destination info)])
           | None \<Rightarrow> move_afterDelete srv info []))"

subsection \<open>GET\<close>

text \<open>
  Arithmetic and comparison as JavaScript does them on strings and numbers: \<open>-\<close>
  converts both sides to numbers (a string that is not a decimal numeral gives \<open>NaN\<close>,
  the empty string 0); \<open>+\<close> adds two numbers and concatenates as soon as a side is a
  string; \<open>\<lt>\<close> and \<open>\<gt>\<close> compare two strings character by character and anything else
  as numbers, and are false when a side is \<open>NaN\<close>.  \<open>js_string\<close> is the string a value
  becomes in a concatenation.
\<close>

fun js_string :: "jsval \<Rightarrow> string" where
  "js_string (Str s) = s"
| "js_string (Num n) = String n"
| "js_string NaN = ''NaN''"

fun to_number :: "jsval \<Rightarrow> int option" where
  "to_number (Num n) = Some n"
| "to_number NaN = None"
| "to_number (Str s) = (if list_all is_digit s then Some (digits_value s) else None)"

definition of_number :: "int option \<Rightarrow> jsval" where
  "of_number x = (case x of None \<Rightarrow> NaN | Some n \<Rightarrow> Num n)"

definition js_sub :: "jsval \<Rightarrow> jsval \<Rightarrow> jsval" where
  "js_sub a b =
     (case (to_number a, to_number b) of
        (Some x, Some y) \<Rightarrow> Num (x - y)
      | _ \<Rightarrow> NaN)"

fun js_add :: "jsval \<Rightarrow> jsval \<Rightarrow> jsval" where
  "js_add (Num a) (Num b) = Num (a + b)"
| "js_add (Str s) b = Str (s @ js_string b)"
| "js_add a (Str t) = Str (js_string a @ t)"
| "js_add a b = NaN"

fun string_less :: "string \<Rightarrow> string \<Rightarrow> bool" where
  "string_less [] [] = False"
| "string_less [] (d # t) = True"
| "string_less (c # s) [] = False"
| "string_less (c # s) (d # t) =
     ((of_char c :: nat) < of_char d \<or> (c = d \<and> string_less s t))"

fun js_less :: "jsval \<Rightarrow> jsval \<Rightarrow> bool" where
  "js_less (Str s) (Str t) = string_less s t"
| "js_less a b =
     (case (to_number a, to_number b) of
        (Some x, Some y) \<Rightarrow> x < y
      | _ \<Rightarrow> False)"

definition js_greater :: "jsval \<Rightarrow> jsval \<Rightarrow> bool" where
  "js_greater a b = js_less b a"

fun js_truthy :: "jsval \<Rightarrow> bool" where
  "js_truthy (Str s) = (s \<noteq> [])"
| "js_truthy (Num n) = (n \<noteq> 0)"
| "js_truthy NaN = False"

text \<open>
  \<open>getHTTPRange\<close>: the Range header against \<open>/^bytes=([0-9]*)-([0-9]*)$/i\<close>; an empty
  group reads as \<open>null\<close>.
\<close>

definition toLowerCase :: "string \<Rightarrow> string" where
  "toLowerCase s =
     map (\<lambda>c. if 65 \<le> (of_char c :: nat) \<and> (of_char c :: nat) \<le> 90
                then char_of ((of_char c :: nat) + 32) else c) s"

definition range_match :: "string \<Rightarrow> (string \<times> string) option" where
  "range_match rng =
     (if toLowerCase (take 6 rng) = ''bytes=''
      then (let rest = drop 6 rng;
                m1 = takeWhile is_digit rest
            in case dropWhile is_digit rest of
                 [] \<Rightarrow> None
               | c # m2 \<Rightarrow> if c = CHR ''-'' \<and> list_all is_digit m2 then Some (m1, m2) else None)
      else None)"

definition getHTTPRange :: "request \<Rightarrow> (string option \<times> string option) option" where
  "getHTTPRange req =
     (case header req ''range'' of
        None \<Rightarrow> None
      | Some rng \<Rightarrow>
          (case range_match rng of
             None \<Rightarrow> None
           | Some (m1, m2) \<Rightarrow>
               if m1 = [] \<and> m2 = [] then None
               else Some (if m1 \<noteq> [] then Some m1 else None,
                          if m2 \<noteq> [] then Some m2 else None)))"

text \<open>
  \<open>getHTTPHeaders\<close>: the four properties that are there and truthy, under their header
  names, in the order of \<open>propertyMap\<close>.  A last-modified object is formatted as a date;
  any other value is passed on as it is (the model keeps a string or a number, and the
  name of the class for an object).
\<close>

fun header_value :: "server \<Rightarrow> pvalue \<Rightarrow> jsval" where
  "header_value srv (GetLastModified t) = Str (dateFormat srv t)"
| "header_value srv (PStr s) = Str s"
| "header_value srv (PNum n) = Num n"
| "header_value srv PNull = Str ''null''"
| "header_value srv (ResourceType r) = Str ''[object Object]''"
| "header_value srv SupportedReportSet = Str ''[object Object]''"

definition propertyMap :: "(string \<times> string) list" where
  "propertyMap =
     [(''{DAV:}getcontenttype'', ''Content-Type''),
      (''{DAV:}getcontentlength'', ''Content-Length''),
      (''{DAV:}getlastmodified'', ''Last-Modified''),
      (''{DAV:}getetag'', ''ETag'')]"

definition getHTTPHeaders :: "server \<Rightarrow> string \<Rightarrow> (string \<times> jsval) list outcome" where
  "getHTTPHeaders srv p =
     (case server_getProperties srv p (map fst propertyMap) of
        Failed err \<Rightarrow> Failed err
      | Thrown e \<Rightarrow> Thrown e
      | Pending \<Rightarrow> Pending
      | Done properties \<Rightarrow>
          Done (concat (map (\<lambda>(prop, h).
                  case map_of properties prop of
                    None \<Rightarrow> []
                  | Some v \<Rightarrow> if truthy v then [(h, header_value srv v)] else [])
                propertyMap)))"

text \<open>
  \<open>source.copy(target, targetStart, sourceStart)\<close> of Node's Buffer: the bytes of
  \<open>source\<close> from \<open>sourceStart\<close> on are written into \<open>target\<close> from \<open>targetStart\<close> on, as
  many as fit; it gives \<open>target\<close> as it is afterwards.
\<close>

definition buffer_copy :: "string \<Rightarrow> string \<Rightarrow> nat \<Rightarrow> nat \<Rightarrow> string" where
  "buffer_copy src target targetStart sourceStart =
     (let n = min (length target - targetStart) (length src - sourceStart)
      in take targetStart target @ take n (drop sourceStart src) @ drop (targetStart + n) target)"

definition to_nat :: "jsval \<Rightarrow> nat" where
  "to_nat v = (case to_number v of None \<Rightarrow> 0 | Some n \<Rightarrow> nat n)"

text \<open>
  The part of \<open>httpGet\<close> that answers a range: \<open>start\<close> and \<open>end\<close> are settled, the
  slice is made with a new buffer and \<open>body.copy(newStream, offlen, start)\<close>, and 206 is
  written.
\<close>

definition range_answer ::
  "server \<Rightarrow> string \<Rightarrow> (string \<times> jsval) list \<Rightarrow> jsval \<Rightarrow> jsval \<Rightarrow> jsval \<Rightarrow> response" where
  "range_answer srv body httpHeaders nodeSize start end =
     (let offlen = js_add (js_sub end start) (Num 1);
          newStream = buffer_copy body (new_Buffer srv (to_nat offlen)) (to_nat offlen) (to_nat start)
      in \<lparr> status = 206,
           rheaders =
             AList.update ''Content-Range''
               (Str (''bytes '' @ js_string start @ ''-'' @ js_string end @ ''/'' @ js_string nodeSize))
               (AList.update ''Content-Length'' offlen httpHeaders),
           rbody = Bytes newStream \<rparr>)"

definition null_string :: "string option \<Rightarrow> string" where
  "null_string x = (case x of None \<Rightarrow> ''null'' | Some s \<Rightarrow> s)"

definition range_response ::
  "server \<Rightarrow> string \<Rightarrow> (string \<times> jsval) list \<Rightarrow> jsval \<Rightarrow> string option \<times> string option
     \<Rightarrow> response" where
  "range_response srv body httpHeaders nodeSize rng =
     (case fst rng of
        Some r0 \<Rightarrow>
          (let start = Str r0;
               end = (case snd rng of Some r1 \<Rightarrow> Str r1 | None \<Rightarrow> js_sub nodeSize (Num 1))
           in if js_greater start nodeSize
              then handleError (RequestedRangeNotSatisfiable
                     (''The start offset ('' @ r0 @ '') exceeded the size of the entity (''
                      @ js_string nodeSize @ '')''))
              else if js_less end start
              then handleError (RequestedRangeNotSatisfiable
                     (''The end offset ('' @ null_string (snd rng)
                      @ '') is lower than the start offset ('' @ r0 @ '')''))
              else range_answer srv body httpHeaders nodeSize start
                     (if js_greater end nodeSize then js_sub nodeSize (Num 1) else end))
      | None \<Rightarrow>
          (let start = js_sub nodeSize (case snd rng of Some r1 \<Rightarrow> Str r1 | None \<Rightarrow> Num 0);
               end = js_sub nodeSize (Num 1)
           in range_answer srv body httpHeaders nodeSize
                (if js_less start (Num 0) then Num 0 else start) end))"

text \<open>
  The callback of \<open>getHTTPHeaders\<close> in \<open>httpGet\<close>.  \<open>new Date(ifRange)\<close> never raises, so
  the \<open>catch\<close> branch that would compare entity tags is never entered.
\<close>

definition header_truthy :: "(string \<times> jsval) list \<Rightarrow> string \<Rightarrow> jsval option" where
  "header_truthy hs name =
     (case map_of hs name of
        None \<Rightarrow> None
      | Some v \<Rightarrow> if js_truthy v then Some v else None)"

definition get_answer ::
  "server \<Rightarrow> request \<Rightarrow> string \<Rightarrow> (string \<times> jsval) list \<Rightarrow> response" where
  "get_answer srv req body httpHeaders0 =
     (let httpHeaders1 =
            (if header_truthy httpHeaders0 ''Content-Type'' = None
             then AList.update ''Content-Type'' (Str ''application/octet-stream'') httpHeaders0
             else httpHeaders0);
          nodeSize = header_truthy httpHeaders1 ''Content-Length'';
          httpHeaders = (if nodeSize \<noteq> None then AList.delete ''Content-Length'' httpHeaders1
                         else httpHeaders1);
          rng = getHTTPRange req;
          ifRange = header req ''if-range'';
          ignoreRangeHeader =
            (case (nodeSize, rng, ifRange) of
               (Some sz, Some r, Some ir) \<Rightarrow>
                 (case header_truthy httpHeaders ''Last-Modified'' of
                    None \<Rightarrow> True
                  | Some lm \<Rightarrow> date_gt (parseDate srv (js_string lm)) (parseDate srv ir))
             | _ \<Rightarrow> False)
      in case (ignoreRangeHeader, nodeSize, rng) of
           (False, Some sz, Some r) \<Rightarrow> range_response srv body httpHeaders sz r
         | _ \<Rightarrow>
             \<lparr> status = 200,
               rheaders = (case nodeSize of
                             None \<Rightarrow> httpHeaders
                           | Some sz \<Rightarrow> AList.update ''Content-Length'' sz httpHeaders),
               rbody = Bytes body \<rparr>)"

definition answered :: "response \<Rightarrow> handled" where
  "answered r = \<lparr> effects = [], response = Some r \<rparr>"

definition unanswered :: handled where
  "unanswered = \<lparr> effects = [], response = None \<rparr>"

definition get_afterCheck :: "server \<Rightarrow> request \<Rightarrow> string \<Rightarrow> node \<Rightarrow> handled" where
  "get_afterCheck srv req uri node =
     (if \<not> hasFeature node IFILE
      then answered (handleError (NotImplemented ''GET is only implemented on File objects''))
      else
        (case get node of
           Inl err \<Rightarrow> answered (handleError err)
         | Inr body \<Rightarrow>
             (case getHTTPHeaders srv uri of
                Failed err \<Rightarrow> answered (handleError err)
              | Thrown e \<Rightarrow> answered (handleError e)
              | Pending \<Rightarrow> unanswered
              | Done httpHeaders \<Rightarrow> answered (get_answer srv req body httpHeaders))))"

definition httpGet :: "server \<Rightarrow> request \<Rightarrow> handled" where
  "httpGet srv req =
     (case getRequestUri srv req of
        Inl ex \<Rightarrow> answered (handleError ex)
      | Inr uri \<Rightarrow>
          (case checkPreconditions srv req True of
             (written, Failed err) \<Rightarrow> answered (handleError err)
           | (written, Thrown e) \<Rightarrow> answered (handleError e)
           | (written, Pending) \<Rightarrow> unanswered
           | (written, Done redirected) \<Rightarrow>
               if redirected
               then (case written of
                       None \<Rightarrow> unanswered
                     | Some st \<Rightarrow> answered \<lparr> status = st, rheaders = [], rbody = NoBody \<rparr>)
               else
                 (case getNodeForPath srv uri of
                    Inl err \<Rightarrow> answered (handleError err)
                  | Inr node \<Rightarrow> get_afterCheck srv req uri node)))"

subsection \<open>PROPFIND\<close>

text \<open>
  \<open>httpPropfind\<close>, from the callback of \<open>parsePropfindRequest\<close> on: \<open>requestedProperties\<close> is
  what the parser made of the body (the empty list for an empty body), or its error.
\<close>

definition httpPropfind :: "server \<Rightarrow> request \<Rightarrow> exc + string list \<Rightarrow> handled" where
  "httpPropfind srv req parsed =
     (case parsed of
        Inl err \<Rightarrow> answered (handleError err)
      | Inr requestedProperties \<Rightarrow>
          (case getRequestUri srv req of
             Inl ex \<Rightarrow> answered (handleError ex)
           | Inr p \<Rightarrow>
               (case getPropertiesForPath srv p requestedProperties (propfind_depth req) of
                  Failed err \<Rightarrow> answered (handleError err)
                | Thrown e \<Rightarrow> answered (handleError e)
                | Pending \<Rightarrow> unanswered
                | Done newProperties \<Rightarrow>
                    answered \<lparr> status = 207,
                               rheaders = [(''Content-Type'', Str ''application/xml; charset=utf-8'')],
                               rbody = MultiStatus newProperties \<rparr>)))"

text \<open>The \<open>href\<close> of every entry of a multi-status answer, in order.\<close>

definition multistatus_hrefs :: "handled \<Rightarrow> string option list" where
  "multistatus_hrefs h =
     (case response h of
        None \<Rightarrow> []
      | Some r \<Rightarrow> (case rbody r of MultiStatus es \<Rightarrow> map (\<lambda>(k, e). entry_href e) es | _ \<Rightarrow> []))"

section \<open>A small tree to run the model on\<close>

text \<open>
  The root collection lists the files \<open>a\<close> (ten bytes, entity tag \<open>abc\<close>) and \<open>b\<close> and the
  collection \<open>sub\<close>; the tree also resolves \<open>p\<close>, a file that implements \<open>IProperties\<close>
  and accepts every update.  No node declares properties of its own, no subscriber
  vetoes, the base URI is \<open>/\<close>, and a fresh buffer holds zero bytes.
\<close>

definition example_file :: "string \<Rightarrow> string \<Rightarrow> string \<Rightarrow> node" where
  "example_file p etag content =
     Node p [IFILE] (Some etag) (Some 1000) (Inr content) (int (length content))
       (Some ''text/plain'') (0, 0) (\<lambda>names. []) (\<lambda>props. UTrue) None (Inr [])"

definition example_dir :: "string \<Rightarrow> node list \<Rightarrow> node" where
  "example_dir p cNodes =
     Node p [ICOLLECTION] None (Some 1000) (Inl (NotImplemented ''not a file'')) 0
       None (0, 0) (\<lambda>names. []) (\<lambda>props. UTrue) None (Inr cNodes)"

definition example_props_file :: "string \<Rightarrow> node" where
  "example_props_file p =
     Node p [IFILE, IPROPERTIES] (Some ''p1'') (Some 1000) (Inr ''props'') 5
       (Some ''text/plain'') (0, 0) (\<lambda>names. []) (\<lambda>props. UTrue) None (Inr [])"

definition example_root :: node where
  "example_root =
     example_dir []
       [example_file ''a'' ''abc'' ''abcdefghij'', example_file ''b'' ''xyz'' ''hello'',
        example_dir ''sub'' []]"

definition example_tree :: "string \<Rightarrow> exc + node" where
  "example_tree p =
     (if p = [] then Inr example_root
      else if p = ''a'' then Inr (example_file ''a'' ''abc'' ''abcdefghij'')
      else if p = ''b'' then Inr (example_file ''b'' ''xyz'' ''hello'')
      else if p = ''sub'' then Inr (example_dir ''sub'' [])
      else if p = ''p'' then Inr (example_props_file ''p'')
      else Inl (FileNotFound p))"

definition example_server :: server where
  "example_server =
     \<lparr> baseUri = ''/'',
       xmlNamespaces = [(''DAV:'', ''d''), (''http://ajax.org/2005/aml'', ''a'')],
       protectedProperties =
         [''{DAV:}getcontentlength'', ''{DAV:}getetag'', ''{DAV:}getlastmodified'',
          ''{DAV:}lockdiscovery'', ''{DAV:}resourcetype'', ''{DAV:}supportedlock'',
          ''{DAV:}quota-available-bytes'', ''{DAV:}quota-used-bytes'',
          ''{DAV:}alternate-URI-set'', ''{DAV:}principal-URL'', ''{DAV:}group-membership'',
          ''{DAV:}supported-privilege-set'', ''{DAV:}current-user-privilege-set'',
          ''{DAV:}acl'', ''{DAV:}acl-restrictions'', ''{DAV:}inherited-acl-set'',
          ''{DAV:}principal-collection-set'', ''{DAV:}current-user-principal''],
       getNodeForPath = example_tree,
       move_result = (\<lambda>src dst. None),
       emit = (\<lambda>event uri. False),
       pathname = (\<lambda>u. u),
       parseDate = (\<lambda>s. None),
       dateFormat = (\<lambda>t. ''Thu, 01 Jan 1970 00:16:40 GMT''),
       new_Buffer = (\<lambda>n. replicate n (CHR 0x00)) \<rparr>"

definition quoted :: "string \<Rightarrow> string" where
  "quoted s = [CHR 0x22] @ s @ [CHR 0x22]"




section \<open>The loop over the property names: what it maintains\<close>




section \<open>Verified properties\<close>

subsection \<open>Principal collections\<close>

text \<open>
  C9.  On a principal collection whose \<open>disableListing\<close> flag is set, \<open>getChildren\<close> fails
  with MethodNotAllowed, whatever the backend holds, while \<open>getChild name\<close> never looks at
  the flag: whenever the backend finds a principal at \<open>principalPrefix/name\<close>, the result
  is what \<open>getChildForPrincipal\<close> makes of that principal, and when the backend finds
  none the result is NotFound.
\<close>

theorem disabled_listing_keeps_exact_lookup:
  assumes "disableListing c"
  shows "getChildren c = Failed (MethodNotAllowed ''Listing members of this collection is disabled'')
       \<and> getChild c name =
           (case getPrincipalByPath c (principalPrefix c @ ''/'' @ name) of
              None \<Rightarrow> Failed (NotFound (''Principal with name '' @ name @ '' not found''))
            | Some info \<Rightarrow>
                (case getChildForPrincipal c info of
                   Inl err \<Rightarrow> Failed err
                 | Inr child \<Rightarrow> Done child))"
  using assms by (simp add: getChildren_def getChild_def)

theorem disabled_listing_keeps_exact_lookup_witness:
  "disableListing example_principals
   \<and> getChildren example_principals
       = Failed (MethodNotAllowed ''Listing members of this collection is disabled'')
   \<and> getChild example_principals ''alice'' = Done ''alice-node''"
proof -
  have d: "disableListing example_principals"
    by (simp add: example_principals_def)
  show ?thesis
    using d disabled_listing_keeps_exact_lookup [OF d, of "''alice''"]
    by (simp add: example_principals_def)
qed

subsection \<open>Request URIs\<close>

lemma starts_with_append: "starts_with (t @ s) t"
  by (induction t) auto

lemma starts_with_iff: "starts_with s t \<longleftrightarrow> take (length t) s = t"
  by (induction s t rule: starts_with.induct) auto

lemma starts_with_length: "starts_with s t \<Longrightarrow> length t \<le> length s"
  by (induction s t rule: starts_with.induct) auto

lemma contains_iff: "contains s t \<longleftrightarrow> (\<exists>a b. s = a @ t @ b)"
proof (induction s t rule: contains.induct)
  case (1 t)
  then show ?case by auto
next
  case (2 c s t)
  show ?case
  proof
    assume "contains (c # s) t"
    then consider "starts_with (c # s) t" | "contains s t" by auto
    then show "\<exists>a b. c # s = a @ t @ b"
    proof cases
      case 1
      then have "c # s = [] @ t @ drop (length t) (c # s)"
        by (metis append_Nil append_take_drop_id starts_with_iff)
      then show ?thesis by blast
    next
      case 2
      then obtain a b where "s = a @ t @ b" using 2 "2.IH" by auto
      then have "c # s = (c # a) @ t @ b" by simp
      then show ?thesis by blast
    qed
  next
    assume "\<exists>a b. c # s = a @ t @ b"
    then obtain a b where ab: "c # s = a @ t @ b" by blast
    show "contains (c # s) t"
    proof (cases a)
      case Nil
      then have "starts_with (c # s) t" using ab by (simp add: starts_with_append)
      then show ?thesis by simp
    next
      case (Cons x a')
      then have "s = a' @ t @ b" using ab by simp
      then show ?thesis using "2.IH" by auto
    qed
  qed
qed

lemma replace_first_absent: "\<not> contains s t \<Longrightarrow> replace_first s t r = s"
  by (induction s) auto

lemma unescape_no_percent: "CHR ''%'' \<notin> set s \<Longrightarrow> unescape s = s"
  by (induction s rule: unescape.induct) auto

lemma dropWhile_rev_prefix: "\<exists>z. u = rev (dropWhile P (rev u)) @ z"
  by (metis append_take_drop_id dropWhile_eq_drop rev_append rev_rev_ident rev_take takeWhile_dropWhile_id)

lemma trim_ends:
  assumes "trim s cs \<noteq> []"
  shows "hd (trim s cs) \<notin> set cs \<and> last (trim s cs) \<notin> set cs"
proof -
  define P where "P = (\<lambda>c. c \<in> set cs)"
  define u where "u = dropWhile P s"
  define w where "w = dropWhile P (rev u)"
  have t: "trim s cs = rev w"
    by (simp add: trim_def P_def u_def w_def)
  have w: "w \<noteq> []" using assms t by simp
  then have "\<not> P (hd w)" unfolding w_def by (rule hd_dropWhile)
  moreover have "last (rev w) = hd w" using w by (simp add: last_rev)
  ultimately have l: "last (trim s cs) \<notin> set cs" using t by (simp add: P_def)
  obtain z where z: "u = rev w @ z"
    using dropWhile_rev_prefix [of u P] by (auto simp: w_def)
  then have "u \<noteq> []" using w by simp
  then have "\<not> P (hd u)" unfolding u_def by (rule hd_dropWhile)
  moreover have "hd u = hd (rev w)" using z w by simp
  ultimately have "hd (trim s cs) \<notin> set cs" using t by (simp add: P_def)
  with l show ?thesis by simp
qed

lemma trim_fixed:
  assumes "t = [] \<or> (hd t \<notin> set cs \<and> last t \<notin> set cs)"
  shows "trim t cs = t"
proof (cases t)
  case Nil
  then show ?thesis by (simp add: trim_def)
next
  case (Cons a t')
  then have h: "a \<notin> set cs" and l: "last t \<notin> set cs" using assms by auto
  have 1: "dropWhile (\<lambda>c. c \<in> set cs) t = t" using Cons h by simp
  have "rev t \<noteq> []" using Cons by simp
  moreover have "hd (rev t) = last t" using Cons by (simp add: hd_rev)
  ultimately have 2: "dropWhile (\<lambda>c. c \<in> set cs) (rev t) = rev t"
    using l by (metis dropWhile.simps(2) list.collapse)
  show ?thesis by (simp add: trim_def 1 2)
qed

lemma trim_idem: "trim (trim s cs) cs = trim s cs"
  using trim_ends [of s cs] trim_fixed [of "trim s cs" cs] by blast

lemma no_double_append:
  assumes "\<not> contains a ''//''" "\<not> contains b ''//''" "b = [] \<or> hd b \<noteq> CHR ''/''"
  shows "\<not> contains (a @ b) ''//''"
  using assms
proof (induction a)
  case Nil
  then show ?case by simp
next
  case (Cons x a)
  then show ?case
    by (cases a; cases b) auto
qed

lemma no_scheme: "\<not> contains u ''//'' \<Longrightarrow> \<not> contains u ''://''"
proof
  assume n: "\<not> contains u ''//''" and c: "contains u ''://''"
  from c obtain a b where "u = a @ ''://'' @ b"
    unfolding contains_iff by blast
  then have "u = (a @ '':'') @ ''//'' @ b" by simp
  then have "contains u ''//''" unfolding contains_iff by blast
  with n show False by simp
qed

lemma calculateUri_plain:
  assumes "\<not> contains u ''//''"
  shows "calculateUri pn base u =
     (if starts_with u base then Inr (trim (unescape (drop (length base) u)) ''/'')
      else if u @ ''/'' = base then Inr []
      else Inl (Forbidden (''Requested uri ('' @ u @ '') is out of base uri ('' @ base @ '')'')))"
proof -
  have 1: "(if take 1 u \<noteq> ''/'' \<and> contains u ''://'' then pn u else u) = u"
    using no_scheme [OF assms] by simp
  have 2: "replace_first u ''//'' ''/'' = u"
    using assms by (rule replace_first_absent)
  show ?thesis
    unfolding calculateUri_def 1 2 Let_def ..
qed

lemma no_double_butlast:
  assumes "\<not> contains base ''//''"
  shows "\<not> contains (butlast base) ''//''"
proof
  assume "contains (butlast base) ''//''"
  then obtain a b where ab: "butlast base = a @ ''//'' @ b"
    unfolding contains_iff by blast
  have "base \<noteq> []" using ab by auto
  then have "base = butlast base @ [last base]" by simp
  then have "base = a @ ''//'' @ (b @ [last base])" using ab by simp
  then have "contains base ''//''" unfolding contains_iff by blast
  with assms show False by simp
qed

lemma calculateUri_base:
  assumes "\<not> contains base ''//''" "base \<noteq> []" "last base = CHR ''/''"
  shows "calculateUri pn base base = Inr []" "calculateUri pn base (butlast base) = Inr []"
proof -
  have sw: "starts_with base base" using starts_with_append [of base "[]"] by simp
  show "calculateUri pn base base = Inr []"
    unfolding calculateUri_plain [OF assms(1)] using sw by (simp add: trim_def)
  have ab: "butlast base @ ''/'' = base"
    using append_butlast_last_id [OF assms(2)] unfolding assms(3) .
  have nsw: "\<not> starts_with (butlast base) base"
  proof
    assume "starts_with (butlast base) base"
    then have le: "length base \<le> length (butlast base)"
      by (rule starts_with_length)
    obtain n where "length base = Suc n" using assms(2) by (cases base) auto
    with le show False by simp
  qed
  show "calculateUri pn base (butlast base) = Inr []"
    unfolding calculateUri_plain [OF no_double_butlast [OF assms(1)]]
    by (simp only: nsw ab if_False if_True simp_thms)
qed

lemma calculateUri_idem:
  assumes "\<not> contains base ''//''" "base \<noteq> []" "last base = CHR ''/''"
    and "calculateUri pn base x = Inr r" "\<not> contains r ''//''" "CHR ''%'' \<notin> set r"
  shows "calculateUri pn base (base @ r) = Inr r"
proof -
  have "r = [] \<or> (\<exists>s. r = trim s ''/'')"
    using assms(4) by (auto simp: calculateUri_def Let_def split: if_splits)
  then have tr: "r = [] \<or> (hd r \<notin> set ''/'' \<and> last r \<notin> set ''/'')"
    using trim_ends [of _ "''/''"] by blast
  then have "r = [] \<or> hd r \<noteq> CHR ''/''" by auto
  then have n2: "\<not> contains (base @ r) ''//''"
    using assms(1,5) by (intro no_double_append)
  have "trim (unescape r) ''/'' = r"
    using tr assms(6) by (simp add: unescape_no_percent trim_fixed)
  then show ?thesis
    unfolding calculateUri_plain [OF n2] by (simp add: starts_with_append)
qed

text \<open>
  C8, as amended.  For a base URI that ends with a slash and holds no double slash:
  \<open>calculateUri\<close> maps the base URI, with or without its trailing slash, to the empty
  path; resolving a result \<open>r\<close> back against the base URI and applying \<open>calculateUri\<close>
  again gives \<open>r\<close> whenever \<open>r\<close> holds neither a percent sign nor a double slash; and a
  request whose URI (after the first double slash is collapsed) neither starts with the
  base URI nor is the base URI without its trailing slash fails with Forbidden, code 403.
\<close>

theorem calculateUri_amended:
  assumes "\<not> contains base ''//''" and "base \<noteq> []" and "last base = CHR ''/''"
  shows "calculateUri pn base base = Inr []
       \<and> calculateUri pn base (butlast base) = Inr []
       \<and> (calculateUri pn base x = Inr r \<and> \<not> contains r ''//'' \<and> CHR ''%'' \<notin> set r
            \<longrightarrow> calculateUri pn base (base @ r) = Inr r)
       \<and> (\<not> starts_with (replace_first (if take 1 x \<noteq> ''/'' \<and> contains x ''://'' then pn x else x) ''//'' ''/'') base
            \<and> replace_first (if take 1 x \<noteq> ''/'' \<and> contains x ''://'' then pn x else x) ''//'' ''/'' @ ''/'' \<noteq> base
            \<longrightarrow> (\<exists>m. calculateUri pn base x = Inl (Forbidden m) \<and> code (Forbidden m) = 403))"
proof -
  have 1: "calculateUri pn base base = Inr []"
    and 2: "calculateUri pn base (butlast base) = Inr []"
    using assms by (rule calculateUri_base)+
  have 3: "calculateUri pn base x = Inr r \<and> \<not> contains r ''//'' \<and> CHR ''%'' \<notin> set r
            \<longrightarrow> calculateUri pn base (base @ r) = Inr r"
    using calculateUri_idem [OF assms] by blast
  have 4: "\<not> starts_with (replace_first (if take 1 x \<noteq> ''/'' \<and> contains x ''://'' then pn x else x) ''//'' ''/'') base
            \<and> replace_first (if take 1 x \<noteq> ''/'' \<and> contains x ''://'' then pn x else x) ''//'' ''/'' @ ''/'' \<noteq> base
            \<longrightarrow> (\<exists>m. calculateUri pn base x = Inl (Forbidden m) \<and> code (Forbidden m) = 403)"
    by (simp add: calculateUri_def Let_def)
  from 1 2 3 4 show ?thesis by blast
qed

theorem calculateUri_amended_witness:
  "calculateUri (\<lambda>u. u) ''/dav/'' ''/dav/'' = Inr []
   \<and> calculateUri (\<lambda>u. u) ''/dav/'' ''/dav'' = Inr []
   \<and> calculateUri (\<lambda>u. u) ''/dav/'' ''/dav/a%20b/'' = Inr ''a b''
   \<and> calculateUri (\<lambda>u. u) ''/dav/'' ''/dav/a b'' = Inr ''a b''
   \<and> (\<exists>m. calculateUri (\<lambda>u. u) ''/dav/'' ''/other/x'' = Inl (Forbidden m) \<and> code (Forbidden m) = 403)"
proof -
  have b: "\<not> contains ''/dav/'' ''//''" "''/dav/'' \<noteq> []" "last ''/dav/'' = CHR ''/''"
    by simp_all
  have r: "calculateUri (\<lambda>u. u) ''/dav/'' ''/dav/a%20b/'' = Inr ''a b''"
    by code_simp
  have n: "\<not> contains ''a b'' ''//''" "CHR ''%'' \<notin> set ''a b''"
    by simp_all
  have f1: "\<not> starts_with (replace_first (if take 1 ''/other/x'' \<noteq> ''/'' \<and> contains ''/other/x'' ''://''
              then (\<lambda>u. u) ''/other/x'' else ''/other/x'') ''//'' ''/'') ''/dav/''"
    by simp
  have f2: "replace_first (if take 1 ''/other/x'' \<noteq> ''/'' \<and> contains ''/other/x'' ''://''
              then (\<lambda>u. u) ''/other/x'' else ''/other/x'') ''//'' ''/'' @ ''/'' \<noteq> ''/dav/''"
    by simp
  note t1 = calculateUri_amended [OF b, of "\<lambda>u. u" "''/dav/a%20b/''" "''a b''"]
  note t2 = calculateUri_amended [OF b, of "\<lambda>u. u" "''/other/x''" "''a b''"]
  have c1: "calculateUri (\<lambda>u. u) ''/dav/'' ''/dav/'' = Inr []" using t1 by blast
  have c2: "calculateUri (\<lambda>u. u) ''/dav/'' (butlast ''/dav/'') = Inr []" using t1 by blast
  have c3: "calculateUri (\<lambda>u. u) ''/dav/'' (''/dav/'' @ ''a b'') = Inr ''a b''"
    using t1 r n by blast
  have c4: "\<exists>m. calculateUri (\<lambda>u. u) ''/dav/'' ''/other/x'' = Inl (Forbidden m) \<and> code (Forbidden m) = 403"
    using t2 f1 f2 by blast
  have e2: "butlast ''/dav/'' = ''/dav''" by simp
  have e3: "''/dav/'' @ ''a b'' = ''/dav/a b''" by simp
  show ?thesis using c1 c2 c3 c4 r unfolding e2 e3 by blast
qed

text \<open>
  The claim as it stands fails: the raw path \<open>/%2541\<close> yields \<open>%41\<close>, and resolving that
  back against the base URI \<open>/\<close> yields \<open>A\<close>, because the path is percent-decoded once
  more.
\<close>

theorem calculateUri_not_idempotent:
  "calculateUri (\<lambda>u. u) ''/'' ''/%2541'' = Inr ''%41''
   \<and> calculateUri (\<lambda>u. u) ''/'' (''/'' @ ''%41'') = Inr ''A''"
  by code_simp

subsection \<open>The href property\<close>

text \<open>
  C10.  \<open>unserialize\<close> returns a property exactly when the first child of the element is
  \<open>{DAV:}href\<close>; the property it returns has \<open>autoPrefix\<close> false and the text content of
  that child as its \<open>href\<close>, so \<open>serialize\<close> writes that text between the tags with no
  base URI in front; and for any href property \<open>q\<close>, unserializing the element that
  carries the text \<open>serialize\<close> wrote for \<open>q\<close> gives a property that serializes to the
  same string as \<open>q\<close>.
\<close>

theorem href_unserialize_roundtrip:
  "(unserialize d \<noteq> None \<longleftrightarrow> toClarkNotation (getFirstChild d) = Some ''{DAV:}href'')
   \<and> (\<forall>p. unserialize d = Some p \<longrightarrow>
         \<not> autoPrefix p
         \<and> (\<exists>c. getFirstChild d = Some c \<and> href p = textContent c
              \<and> serialize base nss p out
                  = out @ ''<'' @ ns_prefix nss ''DAV:'' @ '':href>'' @ textContent c
                        @ ''</'' @ ns_prefix nss ''DAV:'' @ '':href>''))
   \<and> (\<exists>p'. unserialize (parsed_prop ns l (emitted_href base q) siblings) = Some p'
         \<and> href p' = emitted_href base q
         \<and> serialize base nss p' out = serialize base nss q out)"
proof -
  have 1: "unserialize d \<noteq> None \<longleftrightarrow> toClarkNotation (getFirstChild d) = Some ''{DAV:}href''"
    by (cases "getFirstChild d") (auto simp: unserialize_def)
  have 2: "\<forall>p. unserialize d = Some p \<longrightarrow>
         \<not> autoPrefix p
         \<and> (\<exists>c. getFirstChild d = Some c \<and> href p = textContent c
              \<and> serialize base nss p out
                  = out @ ''<'' @ ns_prefix nss ''DAV:'' @ '':href>'' @ textContent c
                        @ ''</'' @ ns_prefix nss ''DAV:'' @ '':href>'')"
    by (cases "getFirstChild d")
       (auto simp: unserialize_def new_Href_def serialize_def Let_def split: if_splits)
  have 3: "\<exists>p'. unserialize (parsed_prop ns l (emitted_href base q) siblings) = Some p'
         \<and> href p' = emitted_href base q
         \<and> serialize base nss p' out = serialize base nss q out"
    by (simp add: unserialize_def parsed_prop_def new_Href_def serialize_def emitted_href_def Let_def)
  from 1 2 3 show ?thesis by blast
qed

theorem href_unserialize_roundtrip_witness:
  "unserialize (parsed_prop ''DAV:'' ''owner'' ''/dav/principals/alice'' [])
     = Some \<lparr> href = ''/dav/principals/alice'', autoPrefix = False \<rparr>
   \<and> unserialize (Element ''DAV:'' ''owner'' [TextNode ''alice'']) = None
   \<and> serialize ''/dav/'' [(''DAV:'', ''d'')] \<lparr> href = ''principals/alice'', autoPrefix = True \<rparr> []
       = ''<d:href>/dav/principals/alice</d:href>''
   \<and> serialize ''/dav/'' [(''DAV:'', ''d'')] \<lparr> href = ''/dav/principals/alice'', autoPrefix = False \<rparr> []
       = ''<d:href>/dav/principals/alice</d:href>''"
proof -
  have u: "unserialize (parsed_prop ''DAV:'' ''owner'' ''/dav/principals/alice'' [])
     = Some \<lparr> href = ''/dav/principals/alice'', autoPrefix = False \<rparr>"
    by (simp add: unserialize_def parsed_prop_def new_Href_def)
  have e: "emitted_href ''/dav/'' \<lparr> href = ''principals/alice'', autoPrefix = True \<rparr>
             = ''/dav/principals/alice''"
    by (simp add: emitted_href_def)
  show ?thesis
    using href_unserialize_roundtrip [of "Element ''DAV:'' ''owner'' [TextNode ''alice'']"
        "''/dav/''" "[(''DAV:'', ''d'')]" "[]" "''DAV:''" "''owner''"
        "\<lparr> href = ''principals/alice'', autoPrefix = True \<rparr>" "[]"] u e
    by (simp add: serialize_def ns_prefix_def)
qed

subsection \<open>Preconditions\<close>

text \<open>
  C3.  The code departs from the claim when the request also carries a passing If-Match
  header: \<open>node\<close> is then already set when \<open>afterIfMatch\<close> runs, the comparison of the
  If-None-Match tag with the entity tag is skipped, and the preconditions pass.  For the
  file \<open>a\<close> with entity tag \<open>abc\<close> and the headers \<open>If-Match: "abc"\<close> and
  \<open>If-None-Match: "abc"\<close>, \<open>checkPreconditions\<close> calls back with no error and no redirect,
  and writes no 304, whether it handles the request as a GET or not.
\<close>

theorem if_none_match_skipped_after_if_match:
  "checkPreconditions example_server
     \<lparr> url = ''/a'', headers = [(''if-match'', quoted ''abc''), (''if-none-match'', quoted ''abc'')] \<rparr>
     False = (None, Done False)
   \<and> checkPreconditions example_server
     \<lparr> url = ''/a'', headers = [(''if-match'', quoted ''abc''), (''if-none-match'', quoted ''abc'')] \<rparr>
     True = (None, Done False)"
  by code_simp

text \<open>
  Without an If-Match header the comparison is made: a matching If-None-Match tag ends in
  412 when the request is not handled as a GET, and in a written 304 with the redirect
  flag when it is.
\<close>

lemma if_none_match_alone:
  assumes "getRequestUri srv req = Inr uri" and "header req ''if-match'' = None"
    and "header req ''if-none-match'' = Some v" and "getNodeForPath srv uri = Inr n"
    and "getETag n = Some (trim v [CHR 0x22])" and "trim v [CHR 0x22] \<noteq> []"
  shows "\<exists>m h. checkPreconditions srv req False = (None, Failed (PreconditionFailed m h))
               \<and> code (PreconditionFailed m h) = 412"
    and "checkPreconditions srv req True = (Some 304, Done True)"
  using assms by (simp_all add: checkPreconditions_def afterIfMatch_def Let_def)

subsection \<open>MOVE\<close>

lemma toUpperCase_T: "toUpperCase ''T'' = ''T''"
  by code_simp

text \<open>
  C7, as amended.  For a MOVE request inside the base URI: without a Destination header
  the response is 400; with a Destination inside the base URI, an Overwrite header that
  is not empty and, in upper case, is neither \<open>T\<close> nor \<open>F\<close> gives 400; otherwise a
  destination parent the tree reports as not found gives 409, a destination parent that
  is not a collection gives 415, and an existing destination with Overwrite \<open>F\<close> (in
  either case) under a parent that is a collection gives 412.  In each of these cases no
  operation is invoked on the tree.
\<close>

theorem move_failures:
  assumes "getRequestUri srv req = Inr src"
  shows "(header req ''destination'' = None \<longrightarrow>
            effects (httpMove srv req) = []
            \<and> map_option status (response (httpMove srv req)) = Some 400)
       \<and> (header req ''destination'' = Some d
          \<and> calculateUri (pathname srv) (baseUri srv) d = Inr dest \<longrightarrow>
           (header req ''overwrite'' = Some v \<and> toUpperCase v \<noteq> ''T'' \<and> toUpperCase v \<noteq> ''F'' \<longrightarrow>
              effects (httpMove srv req) = []
              \<and> map_option status (response (httpMove srv req)) = Some 400)
         \<and> ((header req ''overwrite'' = None \<or> header req ''overwrite'' = Some v
               \<and> (toUpperCase v = ''T'' \<or> toUpperCase v = ''F'')) \<longrightarrow>
              (getNodeForPath srv (fst (splitPath dest)) = Inl (FileNotFound m) \<longrightarrow>
                 effects (httpMove srv req) = []
                 \<and> map_option status (response (httpMove srv req)) = Some 409)
            \<and> (getNodeForPath srv (fst (splitPath dest)) = Inr parent
                \<and> \<not> hasFeature parent ICOLLECTION \<longrightarrow>
                 effects (httpMove srv req) = []
                 \<and> map_option status (response (httpMove srv req)) = Some 415))
         \<and> (header req ''overwrite'' = Some v \<and> toUpperCase v = ''F''
            \<and> getNodeForPath srv (fst (splitPath dest)) = Inr parent
            \<and> hasFeature parent ICOLLECTION
            \<and> getNodeForPath srv dest = Inr n \<longrightarrow>
              effects (httpMove srv req) = []
              \<and> map_option status (response (httpMove srv req)) = Some 412))"
  using assms
  by (auto simp: httpMove_def getCopyAndMoveInfo_def resolveDestination_def handleError_def Let_def
      toUpperCase_T)

theorem move_failures_witness:
  "effects (httpMove example_server
      \<lparr> url = ''/a'', headers = [(''destination'', ''/b''), (''overwrite'', ''F'')] \<rparr>) = []
   \<and> map_option status (response (httpMove example_server
      \<lparr> url = ''/a'', headers = [(''destination'', ''/b''), (''overwrite'', ''F'')] \<rparr>))
       = Some 412"
proof -
  let ?req = "\<lparr> url = ''/a'', headers = [(''destination'', ''/b''), (''overwrite'', ''F'')] \<rparr>"
  have u: "getRequestUri example_server ?req = Inr ''a''"
    by code_simp
  have d: "header ?req ''destination'' = Some ''/b''"
    by (simp add: header_def)
  have c: "calculateUri (pathname example_server) (baseUri example_server) ''/b'' = Inr ''b''"
    by code_simp
  have v: "header ?req ''overwrite'' = Some ''F''"
    by (simp add: header_def)
  have f: "toUpperCase ''F'' = ''F''"
    by code_simp
  have p: "getNodeForPath example_server (fst (splitPath ''b'')) = Inr example_root"
    by (simp add: example_server_def example_tree_def splitPath_def)
  have h: "hasFeature example_root ICOLLECTION"
    by code_simp
  have n: "getNodeForPath example_server ''b'' = Inr (example_file ''b'' ''xyz'' ''hello'')"
    by (simp add: example_server_def example_tree_def)
  show ?thesis
    using move_failures [OF u, of "''/b''" "''b''" "''F''" "''b''" example_root
        "example_file ''b'' ''xyz'' ''hello''"] d c v f p h n
    by blast
qed

text \<open>
  The claim as it stands fails for an Overwrite value other than \<open>T\<close> and \<open>F\<close> that the
  code reads as one of them: with \<open>Overwrite: t\<close> the move onto the existing file \<open>b\<close> goes
  ahead, and the answer is 204.
\<close>

theorem move_lower_case_overwrite:
  "effects (httpMove example_server
      \<lparr> url = ''/a'', headers = [(''destination'', ''/b''), (''overwrite'', ''t'')] \<rparr>)
     = [Delete ''b'', Move ''a'' ''b'']
   \<and> map_option status (response (httpMove example_server
      \<lparr> url = ''/a'', headers = [(''destination'', ''/b''), (''overwrite'', ''t'')] \<rparr>))
       = Some 204"
  by code_simp

subsection \<open>PROPPATCH\<close>

lemma set_update_cases: "x \<in> set (AList.update k v al) \<Longrightarrow> x = (k, v) \<or> x \<in> set al"
  by (induction al) (auto split: if_splits)

lemma array_set_length: "\<not> is_array_index name \<Longrightarrow> alength (array_set name a) = alength a"
  by (simp add: array_set_def)

lemma set_all_lengths:
  assumes "\<forall>x \<in> set r. alength (snd x) = 0" and "\<forall>name \<in> set names. \<not> is_array_index name"
  shows "\<forall>x \<in> set (set_all st names r). alength (snd x) = 0"
  using assms unfolding set_all_def
proof (induction names arbitrary: r)
  case Nil
  then show ?case by simp
next
  case (Cons name names)
  let ?r = "case map_of r st of None \<Rightarrow> r | Some a \<Rightarrow> AList.update st (array_set name a) r"
  have "\<forall>x \<in> set ?r. alength (snd x) = 0"
  proof (cases "map_of r st")
    case None
    then show ?thesis using Cons.prems(1) by simp
  next
    case (Some a)
    then have "(st, a) \<in> set r" by (rule map_of_SomeD)
    then have "alength a = 0" using Cons.prems(1) by auto
    then have "alength (array_set name a) = 0"
      using Cons.prems(2) by (simp add: array_set_length)
    then show ?thesis
      using Some Cons.prems(1) by (auto dest: set_update_cases)
  qed
  then show ?case
    using Cons.IH [of ?r] Cons.prems(2) by simp
qed

lemma remove_empty_all: "\<forall>x \<in> set r. alength (snd x) = 0 \<Longrightarrow> remove_empty r = []"
  by (induction r) (auto simp: remove_empty_def)

lemma initial_buckets_empty:
  "\<forall>x \<in> set [(''200'', empty_array), (''403'', empty_array), (''424'', empty_array)].
     alength (snd x) = 0"
  by (simp add: empty_array_def)

lemma buckets_stay_empty:
  assumes "\<forall>name \<in> set names1. \<not> is_array_index name"
    and "\<forall>name \<in> set names2. \<not> is_array_index name"
  shows "remove_empty (set_all s2 names2
           (set_all s1 names1
              [(''200'', empty_array), (''403'', empty_array), (''424'', empty_array)])) = []"
  by (intro remove_empty_all set_all_lengths initial_buckets_empty assms)

text \<open>
  C1.  The code departs from the claim: the names are stored as named properties of the
  arrays \<open>result["403"]\<close> and \<open>result["424"]\<close>, which leaves the \<open>length\<close> of each array at
  0, and the loop that removes empty buckets deletes every bucket whose \<open>length\<close> is 0.
  For a node that implements \<open>IProperties\<close> and a request that names at least one
  protected property (no name being an array index, as no Clark name is),
  \<open>updateProperties\<close> does not call \<open>node.updateProperties\<close>, as the claim says, but it
  returns no status bucket at all: neither 403 for the protected names nor 424 for the
  others is reported.
\<close>

theorem protected_update_reports_nothing:
  assumes "getNodeForPath srv uri = Inr node" and "hasFeature node IPROPERTIES"
    and "\<exists>name \<in> set (map fst properties). name \<in> set (protectedProperties srv)"
    and "\<forall>name \<in> set (map fst properties). \<not> is_array_index name"
  shows "updateProperties srv uri properties
           = Inr \<lparr> buckets = [], status_href = uri, node_called_with = None \<rparr>"
proof -
  let ?prot = "filter (\<lambda>propertyName. propertyName \<in> set (protectedProperties srv))
                 (map fst properties)"
  let ?rest = "filter (\<lambda>(propertyName, v). propertyName \<notin> set ?prot) properties"
  have ne: "?prot \<noteq> []"
    using assms(3) by (auto simp: filter_empty_conv)
  have i1: "\<forall>name \<in> set ?prot. \<not> is_array_index name"
    using assms(4) by auto
  have i2: "\<forall>name \<in> set (map fst ?rest). \<not> is_array_index name"
    using assms(4) by auto
  have e: "remove_empty (set_all ''424'' (map fst ?rest)
             (set_all ''403'' ?prot
                [(''200'', empty_array), (''403'', empty_array), (''424'', empty_array)])) = []"
    using i1 i2 by (rule buckets_stay_empty)
  show ?thesis
    unfolding updateProperties_def Let_def using assms(1,2) ne e by simp
qed

theorem protected_update_reports_nothing_witness:
  "updateProperties example_server ''p''
      [(''{DAV:}getetag'', PStr ''x''), (''{DAV:}displayname'', PStr ''y'')]
     = Inr \<lparr> buckets = [], status_href = ''p'', node_called_with = None \<rparr>"
proof -
  let ?props = "[(''{DAV:}getetag'', PStr ''x''), (''{DAV:}displayname'', PStr ''y'')]"
  have n: "getNodeForPath example_server ''p'' = Inr (example_props_file ''p'')"
    by (simp add: example_server_def example_tree_def)
  have f: "hasFeature (example_props_file ''p'') IPROPERTIES"
    by (simp add: hasFeature_def example_props_file_def)
  have p: "\<exists>name \<in> set (map fst ?props). name \<in> set (protectedProperties example_server)"
    by (simp add: example_server_def)
  have i: "\<forall>name \<in> set (map fst ?props). \<not> is_array_index name"
    by (simp add: is_array_index_def is_digit_def)
  show ?thesis
    using protected_update_reports_nothing [OF n f p i] .
qed

text \<open>
  C5.  The code departs from the claim in the same way (it is the defect of C1): after
  \<open>node.updateProperties\<close> has returned \<open>true\<close>, the names are stored as named properties
  of the array \<open>result["200"]\<close>, its \<open>length\<close> stays 0, and the bucket is deleted with the
  other two.  For a node that implements \<open>IProperties\<close>, a request without protected
  names (no name being an array index) and a node that answers \<open>true\<close>, the result
  carries the \<open>href\<close> and no empty bucket, but no 200 bucket either.
\<close>

theorem successful_update_reports_nothing:
  assumes "getNodeForPath srv uri = Inr node" and "hasFeature node IPROPERTIES"
    and "\<forall>name \<in> set (map fst properties). name \<notin> set (protectedProperties srv)"
    and "updateProperties_result node properties = UTrue"
    and "\<forall>name \<in> set (map fst properties). \<not> is_array_index name"
  shows "updateProperties srv uri properties
           = Inr \<lparr> buckets = [], status_href = uri, node_called_with = Some properties \<rparr>"
proof -
  have np: "filter (\<lambda>propertyName. propertyName \<in> set (protectedProperties srv))
              (map fst properties) = []"
    using assms(3) by (auto simp: filter_empty_conv)
  have e: "remove_empty (set_all ''200'' (map fst properties)
             (set_all ''403'' []
                [(''200'', empty_array), (''403'', empty_array), (''424'', empty_array)])) = []"
    using assms(5) by (intro buckets_stay_empty) simp_all
  show ?thesis
    unfolding updateProperties_def Let_def np using assms(1,2,4) e by simp
qed

theorem successful_update_reports_nothing_witness:
  "updateProperties example_server ''p'' [(''{DAV:}displayname'', PStr ''y'')]
     = Inr \<lparr> buckets = [], status_href = ''p'',
             node_called_with = Some [(''{DAV:}displayname'', PStr ''y'')] \<rparr>"
proof -
  let ?props = "[(''{DAV:}displayname'', PStr ''y'')]"
  have n: "getNodeForPath example_server ''p'' = Inr (example_props_file ''p'')"
    by (simp add: example_server_def example_tree_def)
  have f: "hasFeature (example_props_file ''p'') IPROPERTIES"
    by (simp add: hasFeature_def example_props_file_def)
  have p: "\<forall>name \<in> set (map fst ?props). name \<notin> set (protectedProperties example_server)"
    by (simp add: example_server_def)
  have u: "updateProperties_result (example_props_file ''p'') ?props = UTrue"
    by (simp add: example_props_file_def)
  have i: "\<forall>name \<in> set (map fst ?props). \<not> is_array_index name"
    by (simp add: is_array_index_def is_digit_def)
  show ?thesis
    using successful_update_reports_nothing [OF n f p u i] .
qed

subsection \<open>GET with a range\<close>

lemma buffer_copy_at_end: "buffer_copy src target (length target) sourceStart = target"
  by (simp add: buffer_copy_def)

text \<open>
  Whatever the file holds, the body of a range answer is the new buffer as it was
  allocated: \<open>body.copy(newStream, offlen, start)\<close> starts writing at offset \<open>offlen\<close>,
  which is the length of \<open>newStream\<close>.
\<close>

lemma range_answer_body:
  assumes "\<And>n. length (new_Buffer srv n) = n"
  shows "rbody (range_answer srv body httpHeaders nodeSize start end)
           = Bytes (new_Buffer srv (to_nat (js_add (js_sub end start) (Num 1))))"
  using buffer_copy_at_end [of body "new_Buffer srv (to_nat (js_add (js_sub end start) (Num 1)))"]
  by (simp add: range_answer_def Let_def assms)

text \<open>
  Both ends of a range are compared as strings when both are given: for the range
  \<open>bytes=5-10\<close> of an entity of 100 bytes the test \<open>end \<lt> start\<close> holds, and the answer is
  416.
\<close>

lemma range_ends_compared_as_text:
  "status (range_response srv body httpHeaders (Num 100) (Some ''5'', Some ''10'')) = 416"
  by (simp add: range_response_def js_greater_def is_digit_def digits_value_def handleError_def)

text \<open>
  C2.  The code departs from the claim in the body of the answer.  For the file \<open>a\<close> with
  the ten bytes \<open>abcdefghij\<close> and the header \<open>Range: bytes=0-4\<close>, \<open>httpGet\<close> answers 206 with
  \<open>Content-Length\<close> 5 and \<open>Content-Range: bytes 0-4/10\<close>, as the claim says, but the body is
  the new buffer of five bytes with nothing copied into it, not \<open>abcde\<close>.
\<close>

theorem get_range_body_not_sliced:
  "httpGet example_server \<lparr> url = ''/a'', headers = [(''range'', ''bytes=0-4'')] \<rparr>
     = \<lparr> effects = [],
         response = Some
           \<lparr> status = 206,
             rheaders = [(''Content-Type'', Str ''text/plain''),
                         (''Last-Modified'', Str ''Thu, 01 Jan 1970 00:16:40 GMT''),
                         (''ETag'', Str ''abc''),
                         (''Content-Length'', Num 5),
                         (''Content-Range'', Str ''bytes 0-4/10'')],
             rbody = Bytes (replicate 5 (CHR 0x00)) \<rparr> \<rparr>"
  by code_simp

subsection \<open>PROPFIND and the Depth header\<close>

text \<open>Whatever the headers of a request are, \<open>httpPropfind\<close> works at depth 1.\<close>

lemma propfind_depth_is_1: "propfind_depth req = 1"
  by (simp add: propfind_depth_def getHTTPDepth_def DEPTH_INFINITY_def Let_def
      split: option.splits)

text \<open>
  C4.  The code departs from the claim for \<open>Depth: 0\<close>: the header is a string, so
  \<open>getHTTPDepth\<close> takes the branch \<open>typeof depth != "number"\<close> and returns the default 1.
  On the root collection of the example tree the PROPFIND with \<open>Depth: 0\<close> therefore works
  at depth 1 and answers with four entries, the target and its three children, where the
  claim has exactly one.
\<close>

theorem propfind_depth_0_lists_children:
  "getHTTPDepth \<lparr> url = ''/'', headers = [(''depth'', ''0'')] \<rparr> 1 = Some 1
   \<and> propfind_depth \<lparr> url = ''/'', headers = [(''depth'', ''0'')] \<rparr> = 1
   \<and> multistatus_hrefs
         (httpPropfind example_server \<lparr> url = ''/'', headers = [(''depth'', ''0'')] \<rparr> (Inr []))
       = [Some ''path/'', Some ''a'', Some ''b'', Some ''sub/'']"
  by code_simp

subsection \<open>The hrefs of a multi-status answer\<close>


lemma resourcetype_set_absent:
  "map_of p200 ''{DAV:}resourcetype'' = None \<Longrightarrow> resourcetype_set p200 = Inr False"
  by (simp add: resourcetype_set_def)























end
